theory Spec2Isabelle
  imports Main "HOL-Library.Word" "HOL-Library.Sublist"
begin

section \<open>A shallow embedding of \<^verbatim>\<open>main.go\<close> (proposing a Gnosis Safe transaction)\<close>

text \<open>
  The program fetches the nonce of a Safe, asks for a gas estimation, builds the
  EIP-712 style digest of the Safe transaction, signs it and posts the signed proposal.
  The functions of \<^verbatim>\<open>main.go\<close> are embedded one by one under their own names.
  What the program calls but does not define (the network, the hashing and signing
  primitives of go-ethereum, the JSON tokenizer) is a field of one of the two records
  \<open>lib\<close> (pure library functions) and \<open>net\<close> (what the remote services answer).
  Every effect (HTTP requests, reads of a response body, lines printed) is recorded in a
  trace of events, in the order the program performs them.
\<close>

subsection \<open>Bytes, machine integers and errors\<close>

type_synonym byte = "8 word"
type_synonym bytes = "byte list"
type_synonym int64 = "64 word"

text \<open>The sentinel errors of \<^verbatim>\<open>strconv\<close>.\<close>

datatype NumErr = ErrSyntax | ErrRange

text \<open>
  Go's \<^verbatim>\<open>error\<close> values that can reach the caller. \<open>NumError f s e\<close> is
  \<^verbatim>\<open>*strconv.NumError{Func: f, Num: s, Err: e}\<close>; \<open>UnmarshalTypeError v f\<close> is
  \<^verbatim>\<open>*json.UnmarshalTypeError\<close> with the JSON value description \<open>v\<close> met at field \<open>f\<close>;
  \<open>ErrorString m\<close> is what \<^verbatim>\<open>errors.New(m)\<close> returns. The other constructors stand for
  the errors of the external collaborators, which the program only passes on.
\<close>

datatype error =
    UrlError string
  | ReadError string
  | SyntaxError string
  | UnmarshalTypeError string string
  | MarshalError string
  | NumError string string NumErr
  | ErrorString string
  | HashError string
  | KeyError string
  | SignError string

subsection \<open>\<^verbatim>\<open>strconv.ParseInt(s, 10, 64)\<close> and decimal formatting\<close>

text \<open>
  \<^verbatim>\<open>strconv\<close> belongs to the Go standard library, not to the repository; the two
  functions below follow its implementation for base 10 and bit size 64. The accumulator
  of \<^verbatim>\<open>ParseUint\<close> is a \<^verbatim>\<open>uint64\<close>: it is a \<open>nat\<close> here, with the wrap-around of
  the addition written out.
\<close>

definition is_digit :: "char \<Rightarrow> bool" where
  "is_digit c = (48 \<le> (of_char c :: nat) \<and> (of_char c :: nat) \<le> 57)"

definition digit_val :: "char \<Rightarrow> nat" where
  "digit_val c = (of_char c :: nat) - 48"

definition maxUint64 :: nat where
  "maxUint64 = 2 ^ 64 - 1"

text \<open>\<open>cutoff\<close> is the smallest number such that \<open>cutoff * 10 > maxUint64\<close>.\<close>

definition uint_cutoff :: nat where
  "uint_cutoff = maxUint64 div 10 + 1"

fun ParseUint_loop :: "string \<Rightarrow> nat \<Rightarrow> NumErr + nat" where
  "ParseUint_loop [] n = Inr n"
| "ParseUint_loop (c # cs) n =
     (if \<not> is_digit c then Inl ErrSyntax
      else if n \<ge> uint_cutoff then Inl ErrRange
      else
        let m = n * 10;
            n1 = (m + digit_val c) mod 2 ^ 64
        in if n1 < m \<or> n1 > maxUint64 then Inl ErrRange else ParseUint_loop cs n1)"

definition ParseUint :: "string \<Rightarrow> NumErr + nat" where
  "ParseUint s = (if s = [] then Inl ErrSyntax else ParseUint_loop s 0)"

text \<open>
  \<^verbatim>\<open>ParseInt\<close> picks off a leading sign, converts the rest as unsigned and checks
  the range of \<^verbatim>\<open>int64\<close>. A range error of \<^verbatim>\<open>ParseUint\<close> comes with the value
  \<open>maxUint64\<close>, which fails the range check of \<^verbatim>\<open>ParseInt\<close> as well.
\<close>

definition int_cutoff :: nat where
  "int_cutoff = 2 ^ 63"

definition ParseInt :: "string \<Rightarrow> error + int64" where
  "ParseInt s0 =
     (if s0 = [] then Inl (NumError ''ParseInt'' s0 ErrSyntax)
      else
        let neg = (hd s0 = CHR ''-'');
            s = (if hd s0 = CHR ''+'' \<or> hd s0 = CHR ''-'' then tl s0 else s0)
        in case ParseUint s of
             Inl ErrSyntax \<Rightarrow> Inl (NumError ''ParseInt'' s0 ErrSyntax)
           | Inl ErrRange \<Rightarrow> Inl (NumError ''ParseInt'' s0 ErrRange)
           | Inr un \<Rightarrow>
               if \<not> neg \<and> un \<ge> int_cutoff then Inl (NumError ''ParseInt'' s0 ErrRange)
               else if neg \<and> un > int_cutoff then Inl (NumError ''ParseInt'' s0 ErrRange)
               else let n = (word_of_nat un :: int64) in Inr (if neg then - n else n))"

text \<open>
  The decimal numeral of an integer, as \<^verbatim>\<open>strconv.FormatInt(n, 10)\<close> and the JSON
  encoder write it.
\<close>

definition digit_char :: "nat \<Rightarrow> char" where
  "digit_char d = ''0123456789'' ! d"

fun nat_digits :: "nat \<Rightarrow> string" where
  "nat_digits n = (if n < 10 then [digit_char n] else nat_digits (n div 10) @ [digit_char (n mod 10)])"

definition int_digits :: "int \<Rightarrow> string" where
  "int_digits i = (if i < 0 then CHR ''-'' # nat_digits (nat (- i)) else nat_digits (nat i))"

definition FormatInt :: "int64 \<Rightarrow> string" where
  "FormatInt n = int_digits (sint n)"

declare nat_digits.simps [simp del]

subsection \<open>JSON values and \<^verbatim>\<open>encoding/json\<close>\<close>

text \<open>
  A JSON text that the tokenizer of \<^verbatim>\<open>encoding/json\<close> accepts is a value of the type
  below: a number keeps its literal, an object keeps its members in the order of the text,
  duplicates included.
\<close>

datatype json =
    JNull
  | JBool bool
  | JNumber string
  | JString string
  | JArray "json list"
  | JObject "(string \<times> json) list"

text \<open>
  \<^verbatim>\<open>json.Unmarshal\<close> into a struct, as the package documents it: a member of the object
  is stored in the field whose name it matches (an exact match is preferred, a
  case-insensitive one accepted), members that match no field are skipped, \<^verbatim>\<open>null\<close>
  leaves a string or an integer untouched and empties a slice, and a value of the wrong
  shape is an \<^verbatim>\<open>UnmarshalTypeError\<close>: the decoder saves the first such error, goes on,
  and returns it at the end.

  \<open>foldName\<close> is the case folding of the decoder on the names that can match an ASCII
  field name: ASCII letters are upper-cased, and the two non-ASCII runes that fold to an
  ASCII letter, U+017F (long s, bytes C5 BF) and U+212A (Kelvin sign, bytes E2 84 AA),
  fold to \<open>S\<close> and \<open>K\<close>.
\<close>

definition upper :: "char \<Rightarrow> char" where
  "upper c = (if 97 \<le> (of_char c :: nat) \<and> (of_char c :: nat) \<le> 122
              then char_of ((of_char c :: nat) - 32) else c)"

fun foldName :: "string \<Rightarrow> string" where
  "foldName [] = []"
| "foldName (c # cs) =
     (if (of_char c :: nat) = 0xC5 \<and> cs \<noteq> [] \<and> (of_char (hd cs) :: nat) = 0xBF
        then CHR ''S'' # foldName (tl cs)
      else if (of_char c :: nat) = 0xE2 \<and> length cs \<ge> 2 \<and> (of_char (hd cs) :: nat) = 0x84
              \<and> (of_char (hd (tl cs)) :: nat) = 0xAA
        then CHR ''K'' # foldName (tl (tl cs))
      else upper c # foldName cs)"

definition findField :: "string list \<Rightarrow> string \<Rightarrow> string option" where
  "findField names key =
     (if key \<in> set names then Some key
      else find (\<lambda>n. foldName n = foldName key) names)"

definition saveError :: "error option \<Rightarrow> error option \<Rightarrow> error option" where
  "saveError saved e = (case saved of None \<Rightarrow> e | Some x \<Rightarrow> Some x)"

text \<open>
  Storing a JSON value in a field of type \<^verbatim>\<open>string\<close>, \<^verbatim>\<open>int64\<close> and
  \<^verbatim>\<open>[]string\<close>: the new value of the field, and the type error if there is one. The
  first argument is the JSON name of the field, for the error.
\<close>

fun store_string :: "string \<Rightarrow> json \<Rightarrow> string \<Rightarrow> string \<times> error option" where
  "store_string f JNull old = (old, None)"
| "store_string f (JString s) old = (s, None)"
| "store_string f (JBool b) old = (old, Some (UnmarshalTypeError ''bool'' f))"
| "store_string f (JNumber n) old = (old, Some (UnmarshalTypeError ''number'' f))"
| "store_string f (JArray xs) old = (old, Some (UnmarshalTypeError ''array'' f))"
| "store_string f (JObject kvs) old = (old, Some (UnmarshalTypeError ''object'' f))"

fun store_int64 :: "string \<Rightarrow> json \<Rightarrow> int64 \<Rightarrow> int64 \<times> error option" where
  "store_int64 f JNull old = (old, None)"
| "store_int64 f (JNumber n) old =
     (case ParseInt n of
        Inr v \<Rightarrow> (v, None)
      | Inl e \<Rightarrow> (old, Some (UnmarshalTypeError (''number '' @ n) f)))"
| "store_int64 f (JBool b) old = (old, Some (UnmarshalTypeError ''bool'' f))"
| "store_int64 f (JString s) old = (old, Some (UnmarshalTypeError ''string'' f))"
| "store_int64 f (JArray xs) old = (old, Some (UnmarshalTypeError ''array'' f))"
| "store_int64 f (JObject kvs) old = (old, Some (UnmarshalTypeError ''object'' f))"

fun store_elems :: "string \<Rightarrow> json list \<Rightarrow> string list \<times> error option" where
  "store_elems f [] = ([], None)"
| "store_elems f (x # xs) =
     (let (s, e) = store_string f x [];
          (ss, es) = store_elems f xs
      in (s # ss, saveError e es))"

fun store_strings :: "string \<Rightarrow> json \<Rightarrow> string list \<Rightarrow> string list \<times> error option" where
  "store_strings f JNull old = ([], None)"
| "store_strings f (JArray xs) old = store_elems f xs"
| "store_strings f (JBool b) old = (old, Some (UnmarshalTypeError ''bool'' f))"
| "store_strings f (JNumber n) old = (old, Some (UnmarshalTypeError ''number'' f))"
| "store_strings f (JString s) old = (old, Some (UnmarshalTypeError ''string'' f))"
| "store_strings f (JObject kvs) old = (old, Some (UnmarshalTypeError ''object'' f))"

text \<open>
  The top level of \<^verbatim>\<open>json.Unmarshal(body, &data)\<close> for a struct \<open>data\<close> that starts
  at its zero value: \<^verbatim>\<open>null\<close> changes nothing, an object is stored member by member
  with \<open>member\<close>, anything else is a type error.
\<close>

definition decode_struct ::
  "('a \<times> error option \<Rightarrow> string \<times> json \<Rightarrow> 'a \<times> error option) \<Rightarrow> 'a \<Rightarrow> json \<Rightarrow> error + 'a" where
  "decode_struct member zero j =
     (case j of
        JNull \<Rightarrow> Inr zero
      | JObject kvs \<Rightarrow>
          (case foldl member (zero, None) kvs of
             (d, None) \<Rightarrow> Inr d
           | (d, Some e) \<Rightarrow> Inl e)
      | JBool b \<Rightarrow> Inl (UnmarshalTypeError ''bool'' [])
      | JNumber n \<Rightarrow> Inl (UnmarshalTypeError ''number'' [])
      | JString s \<Rightarrow> Inl (UnmarshalTypeError ''string'' [])
      | JArray xs \<Rightarrow> Inl (UnmarshalTypeError ''array'' []))"

subsection \<open>The data of \<^verbatim>\<open>main.go\<close>\<close>

definition ZERO_ADDR :: string where
  "ZERO_ADDR = ''0x0000000000000000000000000000000000000000''"

record safeNonceResponse =
  Address :: string
  Nonce :: int64
  Threshold :: int64
  Owners :: "string list"
  MasterCopy :: string
  Modules :: "string list"
  FallbackHandler :: string
  Guard :: string
  Version :: string

definition safeNonceResponse_zero :: safeNonceResponse where
  "safeNonceResponse_zero =
     \<lparr>Address = [], Nonce = 0, Threshold = 0, Owners = [], MasterCopy = [], Modules = [],
      FallbackHandler = [], Guard = [], Version = []\<rparr>"

definition safeNonceResponse_fields :: "string list" where
  "safeNonceResponse_fields =
     [''address'', ''nonce'', ''threshold'', ''owners'', ''masterCopy'', ''modules'',
      ''fallbackHandler'', ''guard'', ''version'']"

definition safeNonceResponse_member ::
  "safeNonceResponse \<times> error option \<Rightarrow> string \<times> json \<Rightarrow> safeNonceResponse \<times> error option" where
  "safeNonceResponse_member st kv =
     (let (d, saved) = st; (k, v) = kv in
      case findField safeNonceResponse_fields k of
        None \<Rightarrow> (d, saved)
      | Some f \<Rightarrow>
          if f = ''address'' then
            (let (x, e) = store_string f v (Address d) in (d\<lparr>Address := x\<rparr>, saveError saved e))
          else if f = ''nonce'' then
            (let (x, e) = store_int64 f v (Nonce d) in (d\<lparr>Nonce := x\<rparr>, saveError saved e))
          else if f = ''threshold'' then
            (let (x, e) = store_int64 f v (Threshold d) in (d\<lparr>Threshold := x\<rparr>, saveError saved e))
          else if f = ''owners'' then
            (let (x, e) = store_strings f v (Owners d) in (d\<lparr>Owners := x\<rparr>, saveError saved e))
          else if f = ''masterCopy'' then
            (let (x, e) = store_string f v (MasterCopy d) in (d\<lparr>MasterCopy := x\<rparr>, saveError saved e))
          else if f = ''modules'' then
            (let (x, e) = store_strings f v (Modules d) in (d\<lparr>Modules := x\<rparr>, saveError saved e))
          else if f = ''fallbackHandler'' then
            (let (x, e) = store_string f v (FallbackHandler d)
             in (d\<lparr>FallbackHandler := x\<rparr>, saveError saved e))
          else if f = ''guard'' then
            (let (x, e) = store_string f v (Guard d) in (d\<lparr>Guard := x\<rparr>, saveError saved e))
          else
            (let (x, e) = store_string f v (Version d) in (d\<lparr>Version := x\<rparr>, saveError saved e)))"

definition decode_safeNonceResponse :: "json \<Rightarrow> error + safeNonceResponse" where
  "decode_safeNonceResponse = decode_struct safeNonceResponse_member safeNonceResponse_zero"

record gasEstimationRequest =
  To :: string
  Value :: int64
  Data :: "string option"
  Operation :: int
  GasToken :: "string option"

record gasEstimationResponse =
  SafeTxGas :: string
  BaseGas :: string
  DataGas :: string
  OperationalGas :: string
  GasPrice :: string
  LastUsedNonce :: int64
  GasToken :: string
  RefundReceiver :: string

definition gasEstimationResponse_zero :: gasEstimationResponse where
  "gasEstimationResponse_zero =
     \<lparr>SafeTxGas = [], BaseGas = [], DataGas = [], OperationalGas = [], GasPrice = [],
      LastUsedNonce = 0, GasToken = [], RefundReceiver = []\<rparr>"

definition gasEstimationResponse_fields :: "string list" where
  "gasEstimationResponse_fields =
     [''safeTxGas'', ''baseGas'', ''dataGas'', ''operationalGas'', ''gasPrice'',
      ''lastUsedNonce'', ''gasToken'', ''refundReceiver'']"

definition gasEstimationResponse_member ::
  "gasEstimationResponse \<times> error option \<Rightarrow> string \<times> json
     \<Rightarrow> gasEstimationResponse \<times> error option" where
  "gasEstimationResponse_member st kv =
     (let (d, saved) = st; (k, v) = kv in
      case findField gasEstimationResponse_fields k of
        None \<Rightarrow> (d, saved)
      | Some f \<Rightarrow>
          if f = ''safeTxGas'' then
            (let (x, e) = store_string f v (SafeTxGas d) in (d\<lparr>SafeTxGas := x\<rparr>, saveError saved e))
          else if f = ''baseGas'' then
            (let (x, e) = store_string f v (gasEstimationResponse.BaseGas d)
             in (d\<lparr>gasEstimationResponse.BaseGas := x\<rparr>, saveError saved e))
          else if f = ''dataGas'' then
            (let (x, e) = store_string f v (DataGas d) in (d\<lparr>DataGas := x\<rparr>, saveError saved e))
          else if f = ''operationalGas'' then
            (let (x, e) = store_string f v (OperationalGas d)
             in (d\<lparr>OperationalGas := x\<rparr>, saveError saved e))
          else if f = ''gasPrice'' then
            (let (x, e) = store_string f v (gasEstimationResponse.GasPrice d)
             in (d\<lparr>gasEstimationResponse.GasPrice := x\<rparr>, saveError saved e))
          else if f = ''lastUsedNonce'' then
            (let (x, e) = store_int64 f v (LastUsedNonce d)
             in (d\<lparr>LastUsedNonce := x\<rparr>, saveError saved e))
          else if f = ''gasToken'' then
            (let (x, e) = store_string f v (gasEstimationResponse.GasToken d)
             in (d\<lparr>gasEstimationResponse.GasToken := x\<rparr>, saveError saved e))
          else
            (let (x, e) = store_string f v (gasEstimationResponse.RefundReceiver d)
             in (d\<lparr>gasEstimationResponse.RefundReceiver := x\<rparr>, saveError saved e)))"

definition decode_gasEstimationResponse :: "json \<Rightarrow> error + gasEstimationResponse" where
  "decode_gasEstimationResponse =
     decode_struct gasEstimationResponse_member gasEstimationResponse_zero"

record gnosisTxRequest =
  To :: string
  Value :: int64
  Data :: "string option"
  Operation :: int64
  GasToken :: string
  SafeTxGas :: int64
  BaseGas :: int64
  GasPrice :: int64
  RefundReceiver :: string
  Nonce :: int64
  ContractTransactionHash :: string
  Sender :: string
  Signature :: string
  Origin :: "string option"

record gnosisTxErrResponse =
  NonFieldErrors :: "string list"

definition gnosisTxErrResponse_zero :: gnosisTxErrResponse where
  "gnosisTxErrResponse_zero = \<lparr>NonFieldErrors = []\<rparr>"

definition gnosisTxErrResponse_fields :: "string list" where
  "gnosisTxErrResponse_fields = [''nonFieldErrors'']"

definition gnosisTxErrResponse_member ::
  "gnosisTxErrResponse \<times> error option \<Rightarrow> string \<times> json
     \<Rightarrow> gnosisTxErrResponse \<times> error option" where
  "gnosisTxErrResponse_member st kv =
     (let (d, saved) = st; (k, v) = kv in
      case findField gnosisTxErrResponse_fields k of
        None \<Rightarrow> (d, saved)
      | Some f \<Rightarrow>
          (let (x, e) = store_strings f v (NonFieldErrors d)
           in (d\<lparr>NonFieldErrors := x\<rparr>, saveError saved e)))"

definition decode_gnosisTxErrResponse :: "json \<Rightarrow> error + gnosisTxErrResponse" where
  "decode_gnosisTxErrResponse = decode_struct gnosisTxErrResponse_member gnosisTxErrResponse_zero"

text \<open>
  \<^verbatim>\<open>json.Marshal\<close> of the two request structs: an object with one member per field, in
  the order of the declaration and under the name of the field's tag; a nil pointer is
  \<^verbatim>\<open>null\<close>, an integer its decimal numeral.
\<close>

definition json_of_ptr :: "string option \<Rightarrow> json" where
  "json_of_ptr p = (case p of None \<Rightarrow> JNull | Some s \<Rightarrow> JString s)"

definition json_of_gasEstimationRequest :: "gasEstimationRequest \<Rightarrow> json" where
  "json_of_gasEstimationRequest r =
     JObject
      [(''to'', JString (gasEstimationRequest.To r)),
       (''value'', JNumber (FormatInt (gasEstimationRequest.Value r))),
       (''data'', json_of_ptr (gasEstimationRequest.Data r)),
       (''operation'', JNumber (int_digits (gasEstimationRequest.Operation r))),
       (''gasToken'', json_of_ptr (gasEstimationRequest.GasToken r))]"

definition json_of_gnosisTxRequest :: "gnosisTxRequest \<Rightarrow> json" where
  "json_of_gnosisTxRequest r =
     JObject
      [(''to'', JString (To r)),
       (''value'', JNumber (FormatInt (Value r))),
       (''data'', json_of_ptr (Data r)),
       (''operation'', JNumber (FormatInt (Operation r))),
       (''gasToken'', JString (GasToken r)),
       (''safeTxGas'', JNumber (FormatInt (SafeTxGas r))),
       (''baseGas'', JNumber (FormatInt (BaseGas r))),
       (''gasPrice'', JNumber (FormatInt (GasPrice r))),
       (''refundReceiver'', JString (RefundReceiver r)),
       (''nonce'', JNumber (FormatInt (Nonce r))),
       (''contractTransactionHash'', JString (ContractTransactionHash r)),
       (''sender'', JString (Sender r)),
       (''signature'', JString (Signature r)),
       (''origin'', json_of_ptr (Origin r))]"

subsection \<open>The external collaborators\<close>

text \<open>
  The types of go-ethereum that the program handles. \<^verbatim>\<open>common.Address\<close> is
  \<^verbatim>\<open>[20]byte\<close> and \<^verbatim>\<open>common.Hash\<close> is \<^verbatim>\<open>[32]byte\<close>: they are the words of
  160 and 256 bits whose big-endian bytes fill the array. \<^verbatim>\<open>big.Int\<close> and
  \<^verbatim>\<open>math.Decimal256\<close> are unbounded integers.
\<close>

type_synonym address = "160 word"
type_synonym hash = "256 word"

datatype MixedcaseAddress = NewMixedcaseAddress address

record GnosisSafeTx =
  Sender :: MixedcaseAddress
  Safe :: MixedcaseAddress
  To :: MixedcaseAddress
  Value :: int
  GasPrice :: int
  Data :: "bytes option"
  Operation :: byte
  GasToken :: address
  RefundReceiver :: address
  BaseGas :: int
  SafeTxGas :: int
  Nonce :: int

definition Hash_Bytes :: "hash \<Rightarrow> bytes" where
  "Hash_Bytes h = map (\<lambda>i. ucast (drop_bit (8 * (31 - i)) h)) [0..<32]"

text \<open>\<^verbatim>\<open>hexutil.Encode\<close>: \<^verbatim>\<open>0x\<close> and two lower-case hexadecimal digits per byte.\<close>

definition hex_digit :: "nat \<Rightarrow> char" where
  "hex_digit d = ''0123456789abcdef'' ! d"

definition hex_byte :: "byte \<Rightarrow> string" where
  "hex_byte b = [hex_digit (unat b div 16), hex_digit (unat b mod 16)]"

definition hexutil_Encode :: "bytes \<Rightarrow> string" where
  "hexutil_Encode b = ''0x'' @ concat (map hex_byte b)"

definition Hash_Hex :: "hash \<Rightarrow> string" where
  "Hash_Hex h = hexutil_Encode (Hash_Bytes h)"

text \<open>
  The pure functions of the libraries, left uninterpreted. \<open>'td\<close> is
  \<^verbatim>\<open>core.TypedData\<close>, \<open>'m\<close> the type of its domain map and of its message, and
  \<open>'k\<close> is \<^verbatim>\<open>*ecdsa.PrivateKey\<close>. \<open>json_scan\<close> is the tokenizer of
  \<^verbatim>\<open>encoding/json\<close>: the JSON value a text denotes, or the syntax error; \<open>json_text\<close>
  is the encoder, from the JSON value to its text.
\<close>

record ('td, 'm, 'k) lib =
  json_scan :: "bytes \<Rightarrow> error + json"
  json_text :: "json \<Rightarrow> error + bytes"
  HexToAddress :: "string \<Rightarrow> address"
  ToTypedData :: "GnosisSafeTx \<Rightarrow> 'td"
  Domain_Map :: "'td \<Rightarrow> 'm"
  PrimaryType :: "'td \<Rightarrow> string"
  Message :: "'td \<Rightarrow> 'm"
  HashStruct :: "'td \<Rightarrow> string \<Rightarrow> 'm \<Rightarrow> error + bytes"
  Keccak256Hash :: "bytes \<Rightarrow> hash"
  HexToECDSA :: "string \<Rightarrow> error + 'k"
  Sign :: "bytes \<Rightarrow> 'k \<Rightarrow> error + bytes"

text \<open>
  A message of typed data (\<^verbatim>\<open>TypedDataMessage\<close>, a Go map from names to values) where
  the theorems look into it: its entries are strings or bytes. The method
  \<^verbatim>\<open>GnosisSafeTx.ToTypedData\<close> of go-ethereum, which is not part of the repository,
  writes the entry \<^verbatim>\<open>nonce\<close> of the message as
  \<^verbatim>\<open>fmt.Sprintf("%d", tx.Nonce.Uint64())\<close>, and \<^verbatim>\<open>big.Int.Uint64\<close> gives the low
  64 bits of the magnitude of the integer: \<open>writes_nonce\<close> says so of a library.
\<close>

datatype tdvalue = TString string | TBytes bytes

type_synonym TypedDataMessage = "string \<rightharpoonup> tdvalue"

definition Uint64 :: "int \<Rightarrow> nat" where
  "Uint64 x = nat \<bar>x\<bar> mod 2 ^ 64"

definition writes_nonce :: "('td, TypedDataMessage, 'k) lib \<Rightarrow> bool" where
  "writes_nonce L =
     (\<forall>tx. Message L (ToTypedData L tx) ''nonce''
             = Some (TString (nat_digits (Uint64 (GnosisSafeTx.Nonce tx)))))"

text \<open>
  An HTTP response: its status code, and what \<^verbatim>\<open>ioutil.ReadAll(resp.Body)\<close> gives
  when the body is read. The network is what the two services answer to a request.
\<close>

record response =
  StatusCode :: int
  Body :: "error + bytes"

record net =
  Get :: "string \<Rightarrow> error + response"
  Post :: "string \<Rightarrow> string \<Rightarrow> bytes \<Rightarrow> error + response"

definition StatusOK :: int where
  "StatusOK = 200"

text \<open>
  The effects of the program, in the order it performs them. A value printed by
  \<^verbatim>\<open>fmt.Println\<close> is a string, an \<^verbatim>\<open>int64\<close>, or a pointer to an \<^verbatim>\<open>int64\<close>
  (printed as an address; the model keeps the value it points to).
\<close>

datatype pval = PStr string | PInt64 int64 | PPtr int64

datatype event =
    HttpGet string
  | HttpPost string string bytes
  | ReadAll
  | Println "pval list"

definition emit :: "event list \<Rightarrow> 'a \<times> event list \<Rightarrow> 'a \<times> event list" where
  "emit es r = (fst r, es @ snd r)"

subsection \<open>The functions of \<^verbatim>\<open>main.go\<close>\<close>

definition Unmarshal :: "('td, 'm, 'k) lib \<Rightarrow> (json \<Rightarrow> error + 'a) \<Rightarrow> bytes \<Rightarrow> error + 'a" where
  "Unmarshal L decode body =
     (case json_scan L body of Inl e \<Rightarrow> Inl e | Inr j \<Rightarrow> decode j)"

text \<open>The three addresses the program builds (lines 36, 87 and 154).\<close>

definition nonce_url :: "string \<Rightarrow> string" where
  "nonce_url safe = ''https://safe-transaction.rinkeby.gnosis.io/api/v1/safes/'' @ safe"

definition estimate_url :: "string \<Rightarrow> string" where
  "estimate_url safe =
     ''https://safe-relay.rinkeby.gnosis.io/api/v2/safes/'' @ safe @ ''/transactions/estimate/''"

definition submit_url :: "string \<Rightarrow> string" where
  "submit_url safe =
     ''https://safe-transaction.rinkeby.gnosis.io/api/v1/safes/'' @ safe @ ''/multisig-transactions/''"

text \<open>\<^verbatim>\<open>getSafeNonce\<close>, lines 35 to 52.\<close>

definition getSafeNonce ::
  "('td, 'm, 'k) lib \<Rightarrow> net \<Rightarrow> string \<Rightarrow> (error + int64) \<times> event list" where
  "getSafeNonce L N safe =
     (emit [HttpGet (nonce_url safe)]
        (case Get N (nonce_url safe) of
           Inl err \<Rightarrow> (Inl err, [])
         | Inr resp \<Rightarrow>
             emit [ReadAll]
               (case Body resp of
                  Inl err \<Rightarrow> (Inl err, [])
                | Inr body \<Rightarrow>
                    (case Unmarshal L decode_safeNonceResponse body of
                       Inl err \<Rightarrow> (Inl err, [])
                     | Inr data \<Rightarrow> (Inr (safeNonceResponse.Nonce data), [])))))"

text \<open>\<^verbatim>\<open>getGasEstimation\<close>, lines 73 to 108.\<close>

definition estimate_request :: "string \<Rightarrow> int64 \<Rightarrow> gasEstimationRequest" where
  "estimate_request to val =
     \<lparr>gasEstimationRequest.To = to, gasEstimationRequest.Value = val,
      gasEstimationRequest.Data = None, gasEstimationRequest.Operation = 0,
      gasEstimationRequest.GasToken = None\<rparr>"

definition getGasEstimation ::
  "('td, 'm, 'k) lib \<Rightarrow> net \<Rightarrow> string \<Rightarrow> string \<Rightarrow> int64 \<Rightarrow> (error + int64) \<times> event list" where
  "getGasEstimation L N to safe val =
     (let request = estimate_request to val
      in case json_text L (json_of_gasEstimationRequest request) of
           Inl err \<Rightarrow> (Inl err, [])
         | Inr req \<Rightarrow>
             emit [HttpPost (estimate_url safe) ''application/json'' req]
               (case Post N (estimate_url safe) ''application/json'' req of
                  Inl err \<Rightarrow> (Inl err, [])
                | Inr resp \<Rightarrow>
                    emit [ReadAll]
                      (case Body resp of
                         Inl err \<Rightarrow> (Inl err, [])
                       | Inr body \<Rightarrow>
                           (case Unmarshal L decode_gasEstimationResponse body of
                              Inl err \<Rightarrow> (Inl err, [])
                            | Inr data \<Rightarrow>
                                (case ParseInt (gasEstimationResponse.SafeTxGas data) of
                                   Inl err \<Rightarrow> (Inl err, [])
                                 | Inr safeTxGas \<Rightarrow> (Inr safeTxGas, []))))))"

text \<open>\<^verbatim>\<open>strings.Join\<close>.\<close>

fun Join :: "string list \<Rightarrow> string \<Rightarrow> string" where
  "Join [] sep = []"
| "Join [x] sep = x"
| "Join (x # y # ys) sep = x @ sep @ Join (y # ys) sep"

text \<open>
  \<^verbatim>\<open>sendGnosisTx\<close>, lines 131 to 174. The result is the \<^verbatim>\<open>error\<close> returned:
  \<open>None\<close> is \<^verbatim>\<open>nil\<close>. \<open>proposal\<close> is the request of lines 132 to 147.
\<close>

definition proposal ::
  "string \<Rightarrow> string \<Rightarrow> int64 \<Rightarrow> int64 \<Rightarrow> int64 \<Rightarrow> string \<Rightarrow> string \<Rightarrow> gnosisTxRequest" where
  "proposal from to amount safeTxGas nonce hash signature =
     \<lparr>gnosisTxRequest.To = to,
      gnosisTxRequest.Value = amount,
      gnosisTxRequest.Data = None,
      gnosisTxRequest.Operation = 0,
      gnosisTxRequest.GasToken = ZERO_ADDR,
      gnosisTxRequest.SafeTxGas = safeTxGas,
      gnosisTxRequest.BaseGas = 0,
      gnosisTxRequest.GasPrice = 0,
      gnosisTxRequest.RefundReceiver = ZERO_ADDR,
      gnosisTxRequest.Nonce = nonce,
      gnosisTxRequest.ContractTransactionHash = hash,
      gnosisTxRequest.Sender = from,
      gnosisTxRequest.Signature = signature,
      gnosisTxRequest.Origin = None\<rparr>"

definition sendGnosisTx ::
  "('td, 'm, 'k) lib \<Rightarrow> net \<Rightarrow> string \<Rightarrow> string \<Rightarrow> string \<Rightarrow> int64 \<Rightarrow> int64 \<Rightarrow> int64
     \<Rightarrow> string \<Rightarrow> string \<Rightarrow> error option \<times> event list" where
  "sendGnosisTx L N from to safe amount safeTxGas nonce hash signature =
     (let request = proposal from to amount safeTxGas nonce hash signature
      in case json_text L (json_of_gnosisTxRequest request) of
           Inl err \<Rightarrow> (Some err, [])
         | Inr req \<Rightarrow>
             emit [HttpPost (submit_url safe) ''application/json'' req]
               (case Post N (submit_url safe) ''application/json'' req of
                  Inl err \<Rightarrow> (Some err, [])
                | Inr resp \<Rightarrow>
                    if StatusCode resp = StatusOK then (None, [])
                    else
                      emit [ReadAll]
                        (case Body resp of
                           Inl err \<Rightarrow> (Some err, [])
                         | Inr body \<Rightarrow>
                             (case Unmarshal L decode_gnosisTxErrResponse body of
                                Inl err \<Rightarrow> (Some err, [])
                              | Inr data \<Rightarrow>
                                  (Some (ErrorString (Join (NonFieldErrors data) [CHR 0x0A])),
                                   [])))))"

text \<open>
  \<^verbatim>\<open>sendTransaction\<close>, lines 176 to 249, in three parts: the Safe transaction of
  lines 194 to 207, the digest of lines 209 to 224, and the change of the last byte of
  the signature of lines 239 to 241 (\<open>None\<close> where the index 64 is out of range and Go
  panics).
\<close>

definition gnosisSafeTx ::
  "('td, 'm, 'k) lib \<Rightarrow> string \<Rightarrow> string \<Rightarrow> string \<Rightarrow> int64 \<Rightarrow> int64 \<Rightarrow> int64 \<Rightarrow> GnosisSafeTx" where
  "gnosisSafeTx L from to safe amount safeTxGas nonce =
     \<lparr>Sender = NewMixedcaseAddress (HexToAddress L from),
      Safe = NewMixedcaseAddress (HexToAddress L safe),
      To = NewMixedcaseAddress (HexToAddress L to),
      Value = sint amount,
      GasPrice = 0,
      Data = Some [],
      Operation = 0,
      GasToken = HexToAddress L ZERO_ADDR,
      RefundReceiver = HexToAddress L ZERO_ADDR,
      BaseGas = 0,
      SafeTxGas = sint safeTxGas,
      Nonce = sint nonce\<rparr>"

definition encodedTxHash :: "('td, 'm, 'k) lib \<Rightarrow> GnosisSafeTx \<Rightarrow> error + hash" where
  "encodedTxHash L tx =
     (let typedData = ToTypedData L tx
      in case HashStruct L typedData ''EIP712Domain'' (Domain_Map L typedData) of
           Inl err \<Rightarrow> Inl err
         | Inr domainHash \<Rightarrow>
             (case HashStruct L typedData (PrimaryType L typedData) (Message L typedData) of
                Inl err \<Rightarrow> Inl err
              | Inr primaryTypeHash \<Rightarrow>
                  (let encodedTx = [1, 19];
                       encodedTx = encodedTx @ domainHash;
                       encodedTx = encodedTx @ primaryTypeHash
                   in Inr (Keccak256Hash L encodedTx))))"

definition normalizeV :: "bytes \<Rightarrow> bytes option" where
  "normalizeV signature =
     (if length signature \<le> 64 then None
      else if signature ! 64 = 0 \<or> signature ! 64 = 1
        then Some (signature[64 := signature ! 64 + 27])
      else Some signature)"

text \<open>What a call of \<^verbatim>\<open>sendTransaction\<close> ends with: the error returned, or a panic.\<close>

datatype outcome = Return "error option" | Panic

definition sendTransaction ::
  "('td, 'm, 'k) lib \<Rightarrow> net \<Rightarrow> string \<Rightarrow> string \<Rightarrow> string \<Rightarrow> int64 \<Rightarrow> string
     \<Rightarrow> outcome \<times> event list" where
  "sendTransaction L N from to safe amount privKey =
     (case getSafeNonce L N safe of
        (Inl err, t1) \<Rightarrow> (Return (Some err), t1)
      | (Inr nonce, t1) \<Rightarrow>
          emit (t1 @ [Println [PStr ''nonce:'', PInt64 nonce]])
            (case getGasEstimation L N to safe amount of
               (Inl err, t2) \<Rightarrow> (Return (Some err), t2)
             | (Inr safeTxGas, t2) \<Rightarrow>
                 emit (t2 @ [Println [PStr ''safeTxGas:'', PPtr safeTxGas]])
                   (case encodedTxHash L (gnosisSafeTx L from to safe amount safeTxGas nonce) of
                      Inl err \<Rightarrow> (Return (Some err), [])
                    | Inr h \<Rightarrow>
                        emit [Println [PStr ''encodedTxHash:'', PStr (Hash_Hex h)]]
                          (case HexToECDSA L privKey of
                             Inl err \<Rightarrow> (Return (Some err), [])
                           | Inr privateKey \<Rightarrow>
                               (case Sign L (Hash_Bytes h) privateKey of
                                  Inl err \<Rightarrow> (Return (Some err), [])
                                | Inr signature \<Rightarrow>
                                    (case normalizeV signature of
                                       None \<Rightarrow> (Panic, [])
                                     | Some signature' \<Rightarrow>
                                         (case sendGnosisTx L N from to safe amount safeTxGas
                                                 nonce (Hash_Hex h) (hexutil_Encode signature') of
                                            (r, t3) \<Rightarrow> (Return r, t3))))))))"

subsection \<open>Notions of the specification\<close>

text \<open>
  A base-10 integer numeral: an optional sign and at least one decimal digit. Its value
  is \<open>int_value\<close>.
\<close>

definition unsigned_part :: "string \<Rightarrow> string" where
  "unsigned_part s = (if s \<noteq> [] \<and> (hd s = CHR ''+'' \<or> hd s = CHR ''-'') then tl s else s)"

definition is_base10_integer :: "string \<Rightarrow> bool" where
  "is_base10_integer s = (unsigned_part s \<noteq> [] \<and> list_all is_digit (unsigned_part s))"

definition dec_value :: "nat \<Rightarrow> string \<Rightarrow> nat" where
  "dec_value n s = foldl (\<lambda>a c. a * 10 + digit_val c) n s"

definition int_value :: "string \<Rightarrow> int" where
  "int_value s =
     (if s \<noteq> [] \<and> hd s = CHR ''-'' then - int (dec_value 0 (unsigned_part s))
      else int (dec_value 0 (unsigned_part s)))"

text \<open>The success statuses of HTTP are the codes 200 to 299.\<close>

definition is_success_status :: "int \<Rightarrow> bool" where
  "is_success_status c = (200 \<le> c \<and> c < 300)"


text \<open>The errors of a JSON value that does not have the shape of the struct.\<close>

fun is_type_error :: "error \<Rightarrow> bool" where
  "is_type_error (UnmarshalTypeError v f) = True"
| "is_type_error e = False"


text \<open>The HTTP requests of a trace, and the digests it prints.\<close>

fun is_request :: "event \<Rightarrow> bool" where
  "is_request (HttpGet u) = True"
| "is_request (HttpPost u c b) = True"
| "is_request ReadAll = False"
| "is_request (Println vs) = False"

definition requests :: "event list \<Rightarrow> event list" where
  "requests tr = filter is_request tr"

fun digest_lines :: "event list \<Rightarrow> string list" where
  "digest_lines [] = []"
| "digest_lines (Println [PStr l, PStr h] # es) =
     (if l = ''encodedTxHash:'' then h # digest_lines es else digest_lines es)"
| "digest_lines (e # es) = digest_lines es"

text \<open>
  The HTTP requests that \<^verbatim>\<open>sendTransaction\<close> makes after the gas estimation has
  returned the figure \<open>g\<close> for the nonce \<open>n\<close>.
\<close>

definition submit_requests ::
  "('td, 'm, 'k) lib \<Rightarrow> net \<Rightarrow> string \<Rightarrow> string \<Rightarrow> string \<Rightarrow> int64 \<Rightarrow> string \<Rightarrow> int64 \<Rightarrow> int64
     \<Rightarrow> event list" where
  "submit_requests L N from to safe amount privKey g n =
     (case encodedTxHash L (gnosisSafeTx L from to safe amount g n) of
        Inl e \<Rightarrow> []
      | Inr h \<Rightarrow>
          (case HexToECDSA L privKey of
             Inl e \<Rightarrow> []
           | Inr key \<Rightarrow>
               (case Sign L (Hash_Bytes h) key of
                  Inl e \<Rightarrow> []
                | Inr s \<Rightarrow>
                    (case normalizeV s of
                       None \<Rightarrow> []
                     | Some s' \<Rightarrow>
                         requests (snd (sendGnosisTx L N from to safe amount g n (Hash_Hex h)
                                          (hexutil_Encode s')))))))"

text \<open>Two libraries that agree on everything the digest is computed with.\<close>

definition same_hashing :: "('td, 'm, 'k) lib \<Rightarrow> ('td, 'm, 'k2) lib \<Rightarrow> bool" where
  "same_hashing L1 L2 =
     (HexToAddress L1 = HexToAddress L2 \<and> ToTypedData L1 = ToTypedData L2
      \<and> Domain_Map L1 = Domain_Map L2 \<and> PrimaryType L1 = PrimaryType L2
      \<and> Message L1 = Message L2 \<and> HashStruct L1 = HashStruct L2
      \<and> Keccak256Hash L1 = Keccak256Hash L2)"

subsection \<open>A sample of the collaborators\<close>

text \<open>
  One concrete library and a family of concrete networks, on which the theorems below
  are instantiated. The scanner knows the JSON texts of the examples, the encoder writes
  flat objects, and the hashing and signing functions are stand-ins of the right types.
\<close>

definition bytes_of :: "string \<Rightarrow> bytes" where
  "bytes_of s = map of_char s"

definition sample_scan :: "bytes \<Rightarrow> error + json" where
  \<open>sample_scan b =
     (if b = [] then Inl (SyntaxError ''unexpected end of JSON input'')
      else if b = bytes_of ''{"nonce":5}'' then Inr (JObject [(''nonce'', JNumber ''5'')])
      else if b = bytes_of ''{"nonce":"x"}'' then Inr (JObject [(''nonce'', JString ''x'')])
      else if b = bytes_of ''{}'' then Inr (JObject [])
      else if b = bytes_of ''{"safeTxGas":"21000"}''
        then Inr (JObject [(''safeTxGas'', JString ''21000'')])
      else if b = bytes_of ''{"safeTxGas":"abc"}''
        then Inr (JObject [(''safeTxGas'', JString ''abc'')])
      else if b = bytes_of ''{"nonFieldErrors":["Nonce too low","Invalid signature"]}''
        then Inr (JObject [(''nonFieldErrors'',
                            JArray [JString ''Nonce too low'', JString ''Invalid signature''])])
      else Inl (SyntaxError ''invalid character''))\<close>

fun sample_atom :: "json \<Rightarrow> string option" where
  "sample_atom JNull = Some ''null''"
| "sample_atom (JBool b) = Some (if b then ''true'' else ''false'')"
| "sample_atom (JNumber n) = Some n"
| \<open>sample_atom (JString s) = Some (''"'' @ s @ ''"'')\<close>
| "sample_atom (JArray xs) = None"
| "sample_atom (JObject kvs) = None"

fun sample_members :: "(string \<times> json) list \<Rightarrow> string list option" where
  "sample_members [] = Some []"
| \<open>sample_members ((k, v) # kvs) =
     (case (sample_atom v, sample_members kvs) of
        (Some a, Some ms) \<Rightarrow> Some ((''"'' @ k @ ''":'' @ a) # ms)
      | _ \<Rightarrow> None)\<close>

definition sample_text :: "json \<Rightarrow> error + bytes" where
  "sample_text j =
     (case j of
        JObject kvs \<Rightarrow>
          (case sample_members kvs of
             Some ms \<Rightarrow> Inr (bytes_of (''{'' @ Join ms '','' @ ''}''))
           | None \<Rightarrow> Inl (MarshalError ''nested value''))
      | _ \<Rightarrow> Inl (MarshalError ''not an object''))"

definition sample_lib :: "(GnosisSafeTx, string, nat) lib" where
  "sample_lib =
     \<lparr>json_scan = sample_scan,
      json_text = sample_text,
      HexToAddress = (\<lambda>s. of_nat (length s)),
      ToTypedData = (\<lambda>tx. tx),
      Domain_Map = (\<lambda>tx. ''domain''),
      PrimaryType = (\<lambda>tx. ''SafeTx''),
      Message = (\<lambda>tx. int_digits (GnosisSafeTx.Nonce tx)),
      HashStruct = (\<lambda>tx name m. if name = [] then Inl (HashError ''unknown type'')
                                   else Inr (replicate 32 (of_nat (length m)))),
      Keccak256Hash = (\<lambda>b. of_nat (length b)),
      HexToECDSA = (\<lambda>s. if s = [] then Inl (KeyError ''invalid length'') else Inr (length s)),
      Sign = (\<lambda>d k. if length d = 32 then Inr (replicate 64 (of_nat k) @ [1])
                      else Inl (SignError ''hash is required to be exactly 32 bytes''))\<rparr>"

definition sample_response :: "int \<Rightarrow> string \<Rightarrow> response" where
  "sample_response code text = \<lparr>StatusCode = code, Body = Inr (bytes_of text)\<rparr>"

definition sample_net :: "response \<Rightarrow> response \<Rightarrow> response \<Rightarrow> net" where
  "sample_net r1 r2 r3 =
     \<lparr>Get = (\<lambda>u. Inr r1),
      Post = (\<lambda>u c b. if take 18 u = ''https://safe-relay'' then Inr r2 else Inr r3)\<rparr>"

definition sample_world :: net where
  \<open>sample_world =
     sample_net (sample_response 200 ''{"nonce":5}'')
       (sample_response 200 ''{"safeTxGas":"21000"}'') (sample_response 200 [])\<close>

definition sample_estimate_body :: bytes where
  \<open>sample_estimate_body =
     bytes_of ''{"to":"D","value":1000000,"data":null,"operation":0,"gasToken":null}''\<close>

definition sample_proposal_body :: "string \<Rightarrow> string \<Rightarrow> bytes" where
  \<open>sample_proposal_body h sg =
     bytes_of (''{"to":"D","value":1000000,"data":null,"operation":0,''
          @ ''"gasToken":"0x0000000000000000000000000000000000000000","safeTxGas":21000,''
          @ ''"baseGas":0,"gasPrice":0,''
          @ ''"refundReceiver":"0x0000000000000000000000000000000000000000","nonce":5,''
          @ ''"contractTransactionHash":"'' @ h @ ''","sender":"S","signature":"'' @ sg
          @ ''","origin":null}'')\<close>

text \<open>
  A second library, whose messages are maps and whose nonce entry is written as
  go-ethereum writes it, and a network that answers with the nonce -1.
\<close>

definition sample_typed_scan :: "bytes \<Rightarrow> error + json" where
  \<open>sample_typed_scan b =
     (if b = bytes_of ''{"nonce":-1}'' then Inr (JObject [(''nonce'', JNumber ''-1'')])
      else sample_scan b)\<close>

definition sample_typed_lib :: "(GnosisSafeTx, TypedDataMessage, nat) lib" where
  "sample_typed_lib =
     \<lparr>json_scan = sample_typed_scan,
      json_text = sample_text,
      HexToAddress = (\<lambda>s. of_nat (length s)),
      ToTypedData = (\<lambda>tx. tx),
      Domain_Map = (\<lambda>tx. [''verifyingContract'' \<mapsto> TString ''0x'']),
      PrimaryType = (\<lambda>tx. ''SafeTx''),
      Message = (\<lambda>tx. [''data'' \<mapsto> TBytes [],
                         ''nonce'' \<mapsto> TString (nat_digits (Uint64 (GnosisSafeTx.Nonce tx)))]),
      HashStruct = (\<lambda>tx name m. if name = [] then Inl (HashError ''unknown type'')
                                   else Inr (replicate 32 (of_nat (length name)))),
      Keccak256Hash = (\<lambda>b. of_nat (length b)),
      HexToECDSA = (\<lambda>s. if s = [] then Inl (KeyError ''invalid length'') else Inr (length s)),
      Sign = (\<lambda>d k. if length d = 32 then Inr (replicate 64 (of_nat k) @ [1])
                      else Inl (SignError ''hash is required to be exactly 32 bytes''))\<rparr>"

definition negative_world :: net where
  \<open>negative_world =
     sample_net (sample_response 200 ''{"nonce":-1}'')
       (sample_response 200 ''{"safeTxGas":"21000"}'') (sample_response 200 [])\<close>

definition negative_proposal_body :: "string \<Rightarrow> string \<Rightarrow> bytes" where
  \<open>negative_proposal_body h sg =
     bytes_of (''{"to":"D","value":1000000,"data":null,"operation":0,''
          @ ''"gasToken":"0x0000000000000000000000000000000000000000","safeTxGas":21000,''
          @ ''"baseGas":0,"gasPrice":0,''
          @ ''"refundReceiver":"0x0000000000000000000000000000000000000000","nonce":-1,''
          @ ''"contractTransactionHash":"'' @ h @ ''","sender":"S","signature":"'' @ sg
          @ ''","origin":null}'')\<close>

section \<open>Properties\<close>

subsection \<open>Decimal numerals\<close>

lemma dec_value_ge: "n \<le> dec_value n s"
  unfolding dec_value_def
proof (induction s arbitrary: n)
  case Nil show ?case by simp
next
  case (Cons c cs)
  have "n \<le> n * 10 + digit_val c" by simp
  also have "\<dots> \<le> foldl (\<lambda>a c. a * 10 + digit_val c) (n * 10 + digit_val c) cs" by (rule Cons.IH)
  finally show ?case by simp
qed

lemma digit_val_le: "is_digit c \<Longrightarrow> digit_val c \<le> 9"
  by (auto simp: is_digit_def digit_val_def)

lemma ParseUint_loop_Inr:
  "n < 2 ^ 64 \<Longrightarrow>
   ParseUint_loop s n = Inr v \<longleftrightarrow> list_all is_digit s \<and> dec_value n s < 2 ^ 64 \<and> v = dec_value n s"
proof (induction s arbitrary: n)
  case Nil
  then show ?case by (auto simp: dec_value_def)
next
  case (Cons c cs)
  show ?case
  proof (cases "is_digit c")
    case False
    then show ?thesis by simp
  next
    case dig: True
    have d9: "digit_val c \<le> 9" using dig by (rule digit_val_le)
    have step: "dec_value n (c # cs) = dec_value (n * 10 + digit_val c) cs"
      by (simp add: dec_value_def)
    show ?thesis
    proof (cases "n \<ge> uint_cutoff")
      case True
      then have "n * 10 + digit_val c \<ge> 2 ^ 64"
        by (simp add: uint_cutoff_def maxUint64_def)
      with dec_value_ge [of "n * 10 + digit_val c" cs] have "\<not> dec_value n (c # cs) < 2 ^ 64"
        unfolding step by linarith
      with True dig show ?thesis by simp
    next
      case small: False
      then have m: "n * 10 \<le> 18446744073709551610"
        by (simp add: uint_cutoff_def maxUint64_def)
      show ?thesis
      proof (cases "n * 10 + digit_val c < 2 ^ 64")
        case True
        then have n1: "(n * 10 + digit_val c) mod 2 ^ 64 = n * 10 + digit_val c" by simp
        have "ParseUint_loop (c # cs) n = ParseUint_loop cs (n * 10 + digit_val c)"
          using dig small True by (simp add: Let_def maxUint64_def)
        with Cons.IH [OF True] dig step show ?thesis by simp
      next
        case False
        then have ge: "n * 10 + digit_val c \<ge> 2 ^ 64" by simp
        have "(n * 10 + digit_val c) mod 2 ^ 64 = n * 10 + digit_val c - 2 ^ 64"
          using ge m d9 by (simp add: mod_if)
        then have "(n * 10 + digit_val c) mod 2 ^ 64 < n * 10" using ge m d9 by simp
        then have "ParseUint_loop (c # cs) n = Inl ErrRange"
          using dig small by (simp add: Let_def)
        moreover from dec_value_ge [of "n * 10 + digit_val c" cs] ge
        have "\<not> dec_value n (c # cs) < 2 ^ 64" unfolding step by linarith
        ultimately show ?thesis by simp
      qed
    qed
  qed
qed

lemma ParseUint_loop_nondigit:
  "\<not> list_all is_digit s \<Longrightarrow> \<exists>k. ParseUint_loop s n = Inl k"
  by (induction s arbitrary: n) (auto simp: Let_def)


lemma ParseInt_unfold:
  "ParseInt s =
     (case ParseUint (unsigned_part s) of
        Inl k \<Rightarrow> Inl (NumError ''ParseInt'' s k)
      | Inr un \<Rightarrow>
          if s \<noteq> [] \<and> hd s = CHR ''-''
          then (if un > 2 ^ 63 then Inl (NumError ''ParseInt'' s ErrRange)
                else Inr (- word_of_nat un))
          else (if un \<ge> 2 ^ 63 then Inl (NumError ''ParseInt'' s ErrRange)
                else Inr (word_of_nat un)))"
  by (cases s)
     (auto simp: ParseInt_def unsigned_part_def ParseUint_def int_cutoff_def Let_def
           split: sum.splits NumErr.splits)

lemma ParseUint_Inr:
  "ParseUint s = Inr v \<longleftrightarrow>
     s \<noteq> [] \<and> list_all is_digit s \<and> dec_value 0 s < 2 ^ 64 \<and> v = dec_value 0 s"
  by (simp add: ParseUint_def ParseUint_loop_Inr)

lemma ParseInt_Inr:
  "ParseInt s = Inr v \<longleftrightarrow>
     is_base10_integer s \<and> - (2 ^ 63) \<le> int_value s \<and> int_value s < 2 ^ 63
     \<and> v = word_of_int (int_value s)"
proof (cases "ParseUint (unsigned_part s)")
  case (Inl k)
  then have "\<not> (is_base10_integer s \<and> dec_value 0 (unsigned_part s) < 2 ^ 64)"
    using ParseUint_Inr [of "unsigned_part s" "dec_value 0 (unsigned_part s)"]
    by (simp add: is_base10_integer_def)
  then have "\<not> (is_base10_integer s \<and> - (2 ^ 63) \<le> int_value s \<and> int_value s < 2 ^ 63)"
    by (auto simp: int_value_def split: if_splits)
  with Inl show ?thesis by (auto simp: ParseInt_unfold)
next
  case (Inr un)
  then have v: "is_base10_integer s" "un = dec_value 0 (unsigned_part s)" "un < 2 ^ 64"
    by (auto simp: ParseUint_Inr is_base10_integer_def)
  show ?thesis
    using Inr v by (auto simp: ParseInt_unfold int_value_def)
qed

lemma ParseInt_invalid:
  "\<not> is_base10_integer s \<Longrightarrow> \<exists>k. ParseInt s = Inl (NumError ''ParseInt'' s k)"
proof -
  assume "\<not> is_base10_integer s"
  then have "\<exists>k. ParseUint (unsigned_part s) = Inl k"
    using ParseUint_loop_nondigit [of "unsigned_part s" 0]
    by (auto simp: is_base10_integer_def ParseUint_def)
  then show ?thesis by (auto simp: ParseInt_unfold)
qed

subsection \<open>Results and traces of the three clients\<close>

lemma fst_emit [simp]: "fst (emit es r) = fst r"
  by (simp add: emit_def)

lemma snd_emit [simp]: "snd (emit es r) = es @ snd r"
  by (simp add: emit_def)

lemma fst_getSafeNonce:
  "fst (getSafeNonce L N safe) =
     (case Get N (nonce_url safe) of
        Inl e \<Rightarrow> Inl e
      | Inr resp \<Rightarrow>
          (case Body resp of
             Inl e \<Rightarrow> Inl e
           | Inr body \<Rightarrow> map_sum id safeNonceResponse.Nonce (Unmarshal L decode_safeNonceResponse body)))"
  by (simp add: getSafeNonce_def split: sum.splits)

lemma snd_getSafeNonce:
  "snd (getSafeNonce L N safe) =
     HttpGet (nonce_url safe) # (case Get N (nonce_url safe) of Inl e \<Rightarrow> [] | Inr resp \<Rightarrow> [ReadAll])"
  by (simp add: getSafeNonce_def split: sum.splits)

lemma fst_getGasEstimation:
  "fst (getGasEstimation L N to safe val) =
     (case json_text L (json_of_gasEstimationRequest (estimate_request to val)) of
        Inl e \<Rightarrow> Inl e
      | Inr req \<Rightarrow>
          (case Post N (estimate_url safe) ''application/json'' req of
             Inl e \<Rightarrow> Inl e
           | Inr resp \<Rightarrow>
               (case Body resp of
                  Inl e \<Rightarrow> Inl e
                | Inr body \<Rightarrow>
                    (case Unmarshal L decode_gasEstimationResponse body of
                       Inl e \<Rightarrow> Inl e
                     | Inr data \<Rightarrow> ParseInt (gasEstimationResponse.SafeTxGas data)))))"
  by (simp add: getGasEstimation_def split: sum.splits)

lemma snd_getGasEstimation:
  "snd (getGasEstimation L N to safe val) =
     (case json_text L (json_of_gasEstimationRequest (estimate_request to val)) of
        Inl e \<Rightarrow> []
      | Inr req \<Rightarrow>
          HttpPost (estimate_url safe) ''application/json'' req #
          (case Post N (estimate_url safe) ''application/json'' req of
             Inl e \<Rightarrow> []
           | Inr resp \<Rightarrow> [ReadAll]))"
  by (simp add: getGasEstimation_def split: sum.splits)

lemma fst_sendGnosisTx:
  "fst (sendGnosisTx L N from to safe amount g n h s) =
     (case json_text L (json_of_gnosisTxRequest (proposal from to amount g n h s)) of
        Inl e \<Rightarrow> Some e
      | Inr req \<Rightarrow>
          (case Post N (submit_url safe) ''application/json'' req of
             Inl e \<Rightarrow> Some e
           | Inr resp \<Rightarrow>
               if StatusCode resp = StatusOK then None
               else
                 (case Body resp of
                    Inl e \<Rightarrow> Some e
                  | Inr body \<Rightarrow>
                      (case Unmarshal L decode_gnosisTxErrResponse body of
                         Inl e \<Rightarrow> Some e
                       | Inr data \<Rightarrow> Some (ErrorString (Join (NonFieldErrors data) [CHR 0x0A]))))))"
  by (simp add: sendGnosisTx_def split: sum.splits)

lemma snd_sendGnosisTx:
  "snd (sendGnosisTx L N from to safe amount g n h s) =
     (case json_text L (json_of_gnosisTxRequest (proposal from to amount g n h s)) of
        Inl e \<Rightarrow> []
      | Inr req \<Rightarrow>
          HttpPost (submit_url safe) ''application/json'' req #
          (case Post N (submit_url safe) ''application/json'' req of
             Inl e \<Rightarrow> []
           | Inr resp \<Rightarrow> if StatusCode resp = StatusOK then [] else [ReadAll]))"
  by (simp add: sendGnosisTx_def split: sum.splits)

lemma sendTransaction_unfold:
  "sendTransaction L N from to safe amount privKey =
     (case fst (getSafeNonce L N safe) of
        Inl e \<Rightarrow> (Return (Some e), snd (getSafeNonce L N safe))
      | Inr n \<Rightarrow>
          (case fst (getGasEstimation L N to safe amount) of
             Inl e \<Rightarrow>
               (Return (Some e),
                snd (getSafeNonce L N safe) @ [Println [PStr ''nonce:'', PInt64 n]]
                  @ snd (getGasEstimation L N to safe amount))
           | Inr g \<Rightarrow>
               emit (snd (getSafeNonce L N safe) @ [Println [PStr ''nonce:'', PInt64 n]]
                       @ snd (getGasEstimation L N to safe amount)
                       @ [Println [PStr ''safeTxGas:'', PPtr g]])
                 (case encodedTxHash L (gnosisSafeTx L from to safe amount g n) of
                    Inl e \<Rightarrow> (Return (Some e), [])
                  | Inr h \<Rightarrow>
                      emit [Println [PStr ''encodedTxHash:'', PStr (Hash_Hex h)]]
                        (case HexToECDSA L privKey of
                           Inl e \<Rightarrow> (Return (Some e), [])
                         | Inr key \<Rightarrow>
                             (case Sign L (Hash_Bytes h) key of
                                Inl e \<Rightarrow> (Return (Some e), [])
                              | Inr s \<Rightarrow>
                                  (case normalizeV s of
                                     None \<Rightarrow> (Panic, [])
                                   | Some s' \<Rightarrow>
                                       (Return (fst (sendGnosisTx L N from to safe amount g n
                                                       (Hash_Hex h) (hexutil_Encode s'))),
                                        snd (sendGnosisTx L N from to safe amount g n
                                                (Hash_Hex h) (hexutil_Encode s')))))))))"
  by (cases "getSafeNonce L N safe"; cases "getGasEstimation L N to safe amount")
     (auto simp: sendTransaction_def emit_def split: sum.splits option.splits prod.splits)

subsection \<open>Decoding\<close>

lemma saveError_type_error:
  "(\<forall>x. saved = Some x \<longrightarrow> is_type_error x) \<Longrightarrow> (\<forall>x. e = Some x \<longrightarrow> is_type_error x) \<Longrightarrow>
     saveError saved e = Some y \<Longrightarrow> is_type_error y"
  by (auto simp: saveError_def split: option.splits)



















subsection \<open>Traces\<close>

lemma estimate_url_neq_submit_url: "estimate_url a \<noteq> submit_url b"
  by (simp add: estimate_url_def submit_url_def)

lemma digest_lines_append: "digest_lines (xs @ ys) = digest_lines xs @ digest_lines ys"
  by (induction xs rule: digest_lines.induct) simp_all

lemma requests_append: "requests (xs @ ys) = requests xs @ requests ys"
  by (simp add: requests_def)

lemma Join_two: "Join [a, b] sep = a @ sep @ b"
  by simp

lemma decode_gnosisTxErrResponse_strings:
  "decode_gnosisTxErrResponse (JObject [(''nonFieldErrors'', JArray (map JString xs))])
     = Inr \<lparr>NonFieldErrors = xs\<rparr>"
proof -
  have "store_elems f (map JString xs) = (xs, None)" for f
    by (induction xs) (simp_all add: saveError_def)
  then show ?thesis
    by (simp add: decode_gnosisTxErrResponse_def decode_struct_def gnosisTxErrResponse_member_def
          findField_def gnosisTxErrResponse_fields_def saveError_def gnosisTxErrResponse_zero_def)
qed


lemma requests_getSafeNonce:
  "requests (snd (getSafeNonce L N safe)) = [HttpGet (nonce_url safe)]"
  by (simp add: snd_getSafeNonce requests_def split: sum.splits)

lemma requests_getGasEstimation:
  "requests (snd (getGasEstimation L N to safe val)) =
     (case json_text L (json_of_gasEstimationRequest (estimate_request to val)) of
        Inl e \<Rightarrow> []
      | Inr req \<Rightarrow> [HttpPost (estimate_url safe) ''application/json'' req])"
  by (simp add: snd_getGasEstimation requests_def split: sum.splits)

lemma requests_sendGnosisTx:
  "requests (snd (sendGnosisTx L N from to safe amount g n h s)) =
     (case json_text L (json_of_gnosisTxRequest (proposal from to amount g n h s)) of
        Inl e \<Rightarrow> []
      | Inr req \<Rightarrow> [HttpPost (submit_url safe) ''application/json'' req])"
  by (simp add: snd_sendGnosisTx requests_def split: sum.splits)

lemma normalizeV_65: "length s = 65 \<Longrightarrow> \<exists>s'. normalizeV s = Some s'"
  by (simp add: normalizeV_def)

lemma requests_Cons:
  "requests (e # es) = (if is_request e then e # requests es else requests es)"
  by (simp add: requests_def)

lemma requests_Nil: "requests [] = []"
  by (simp add: requests_def)

lemma requests_getGasEstimation_cases:
  "(requests (snd (getGasEstimation L N to safe val)) = []
      \<and> (\<exists>e. fst (getGasEstimation L N to safe val) = Inl e))
   \<or> (\<exists>b. requests (snd (getGasEstimation L N to safe val))
            = [HttpPost (estimate_url safe) ''application/json'' b])"
  by (simp add: requests_getGasEstimation fst_getGasEstimation split: sum.splits)

lemma submit_requests_cases:
  "submit_requests L N from to safe amount privKey g n = []
   \<or> (\<exists>b. submit_requests L N from to safe amount privKey g n
            = [HttpPost (submit_url safe) ''application/json'' b])"
  by (simp add: submit_requests_def requests_sendGnosisTx split: sum.splits option.splits)

lemma requests_sendTransaction_eq:
  "requests (snd (sendTransaction L N from to safe amount privKey)) =
     HttpGet (nonce_url safe) #
     (case fst (getSafeNonce L N safe) of
        Inl e \<Rightarrow> []
      | Inr n \<Rightarrow>
          requests (snd (getGasEstimation L N to safe amount)) @
          (case fst (getGasEstimation L N to safe amount) of
             Inl e \<Rightarrow> []
           | Inr g \<Rightarrow> submit_requests L N from to safe amount privKey g n))"
  by (simp add: sendTransaction_unfold requests_append requests_getSafeNonce requests_Cons
        requests_Nil submit_requests_def split: sum.splits option.splits)

lemma requests_sendTransaction:
  "\<exists>b2 b3. prefix (requests (snd (sendTransaction L N from to safe amount privKey)))
     [HttpGet (nonce_url safe), HttpPost (estimate_url safe) ''application/json'' b2,
      HttpPost (submit_url safe) ''application/json'' b3]"
proof (cases "fst (getSafeNonce L N safe)")
  case (Inl e)
  then show ?thesis by (simp add: requests_sendTransaction_eq)
next
  case (Inr n)
  show ?thesis
    using requests_getGasEstimation_cases [of L N to safe amount]
  proof (elim disjE conjE exE)
    fix e
    assume "requests (snd (getGasEstimation L N to safe amount)) = []"
      and "fst (getGasEstimation L N to safe amount) = Inl e"
    with Inr show ?thesis by (simp add: requests_sendTransaction_eq)
  next
    fix b
    assume b: "requests (snd (getGasEstimation L N to safe amount))
                 = [HttpPost (estimate_url safe) ''application/json'' b]"
    show ?thesis
    proof (cases "fst (getGasEstimation L N to safe amount)")
      case (Inl e)
      with Inr b have "requests (snd (sendTransaction L N from to safe amount privKey))
          = [HttpGet (nonce_url safe), HttpPost (estimate_url safe) ''application/json'' b]"
        by (simp add: requests_sendTransaction_eq)
      then show ?thesis by (auto simp: prefix_def)
    next
      case g: (Inr g)
      from submit_requests_cases [of L N "from" to safe amount privKey g n]
      show ?thesis
      proof
        assume "submit_requests L N from to safe amount privKey g n = []"
        with Inr b g have "requests (snd (sendTransaction L N from to safe amount privKey))
            = [HttpGet (nonce_url safe), HttpPost (estimate_url safe) ''application/json'' b]"
          by (simp add: requests_sendTransaction_eq)
        then show ?thesis by (auto simp: prefix_def)
      next
        assume "\<exists>b3. submit_requests L N from to safe amount privKey g n
                  = [HttpPost (submit_url safe) ''application/json'' b3]"
        then obtain b3 where "submit_requests L N from to safe amount privKey g n
                  = [HttpPost (submit_url safe) ''application/json'' b3]" ..
        with Inr b g have "requests (snd (sendTransaction L N from to safe amount privKey))
            = [HttpGet (nonce_url safe), HttpPost (estimate_url safe) ''application/json'' b,
               HttpPost (submit_url safe) ''application/json'' b3]"
          by (simp add: requests_sendTransaction_eq)
        then show ?thesis by (auto simp: prefix_def)
      qed
    qed
  qed
qed

lemma post_notin_getSafeNonce: "HttpPost u c b \<notin> set (snd (getSafeNonce L N safe))"
  by (simp add: snd_getSafeNonce split: sum.splits)

lemma post_in_getGasEstimation:
  "HttpPost u c b \<in> set (snd (getGasEstimation L N to safe val)) \<Longrightarrow> u = estimate_url safe"
  by (auto simp: snd_getGasEstimation split: sum.splits)

lemma post_in_sendGnosisTx:
  "HttpPost u c b \<in> set (snd (sendGnosisTx L N from to safe amount g n h s)) \<Longrightarrow>
     u = submit_url safe \<and> c = ''application/json''
     \<and> json_text L (json_of_gnosisTxRequest (proposal from to amount g n h s)) = Inr b"
  by (auto simp: snd_sendGnosisTx split: sum.splits if_splits)

lemma submit_in_trace:
  assumes "HttpPost (submit_url safe) c b
             \<in> set (snd (sendTransaction L N from to safe amount privKey))"
  shows "\<exists>n g h key s s'.
           fst (getSafeNonce L N safe) = Inr n
         \<and> fst (getGasEstimation L N to safe amount) = Inr g
         \<and> encodedTxHash L (gnosisSafeTx L from to safe amount g n) = Inr h
         \<and> HexToECDSA L privKey = Inr key
         \<and> Sign L (Hash_Bytes h) key = Inr s
         \<and> normalizeV s = Some s'
         \<and> c = ''application/json''
         \<and> json_text L (json_of_gnosisTxRequest
               (proposal from to amount g n (Hash_Hex h) (hexutil_Encode s'))) = Inr b"
  using assms
  by (auto simp: sendTransaction_unfold emit_def post_notin_getSafeNonce
        estimate_url_neq_submit_url [symmetric]
        split: sum.splits option.splits
        dest: post_in_getGasEstimation post_in_sendGnosisTx)

lemma digest_lines_getSafeNonce: "digest_lines (snd (getSafeNonce L N safe)) = []"
  by (simp add: snd_getSafeNonce split: sum.splits)

lemma digest_lines_getGasEstimation: "digest_lines (snd (getGasEstimation L N to safe val)) = []"
  by (simp add: snd_getGasEstimation split: sum.splits)

lemma digest_lines_sendGnosisTx:
  "digest_lines (snd (sendGnosisTx L N from to safe amount g n h s)) = []"
  by (simp add: snd_sendGnosisTx split: sum.splits)

lemma digest_lines_sendTransaction:
  assumes "fst (getSafeNonce L N safe) = Inr n"
      and "fst (getGasEstimation L N to safe amount) = Inr g"
  shows "digest_lines (snd (sendTransaction L N from to safe amount privKey)) =
           (case encodedTxHash L (gnosisSafeTx L from to safe amount g n) of
              Inl e \<Rightarrow> []
            | Inr h \<Rightarrow> [Hash_Hex h])"
  using assms
  by (simp add: sendTransaction_unfold digest_lines_append digest_lines_getSafeNonce
        digest_lines_getGasEstimation digest_lines_sendGnosisTx
        split: sum.splits option.splits)

lemma same_hashing_digest:
  "same_hashing L1 L2 \<Longrightarrow>
     encodedTxHash L1 (gnosisSafeTx L1 from to safe amount g n)
       = encodedTxHash L2 (gnosisSafeTx L2 from to safe amount g n)"
  by (simp add: same_hashing_def encodedTxHash_def gnosisSafeTx_def Let_def split: sum.splits)

lemma getSafeNonce_lib_cong:
  "json_scan L1 = json_scan L2 \<Longrightarrow> getSafeNonce L1 N safe = getSafeNonce L2 N safe"
  by (simp add: getSafeNonce_def Unmarshal_def cong: sum.case_cong)

lemma getGasEstimation_lib_cong:
  "json_scan L1 = json_scan L2 \<Longrightarrow> json_text L1 = json_text L2 \<Longrightarrow>
     getGasEstimation L1 N to safe val = getGasEstimation L2 N to safe val"
  by (simp add: getGasEstimation_def Unmarshal_def cong: sum.case_cong)

lemma encodedTxHash_Inr:
  "encodedTxHash L tx = Inr h \<Longrightarrow>
     \<exists>domainHash messageHash.
        HashStruct L (ToTypedData L tx) ''EIP712Domain'' (Domain_Map L (ToTypedData L tx))
          = Inr domainHash
      \<and> HashStruct L (ToTypedData L tx) (PrimaryType L (ToTypedData L tx))
          (Message L (ToTypedData L tx)) = Inr messageHash
      \<and> h = Keccak256Hash L ([1, 19] @ domainHash @ messageHash)"
  by (auto simp: encodedTxHash_def Let_def split: sum.splits)

lemma Uint64_sint: "Uint64 (sint (n :: int64)) = nat \<bar>sint n\<bar>"
proof -
  have "- (2 ^ 63) \<le> sint n" "sint n < 2 ^ 63"
    using sint_ge [of n] sint_lt [of n] by simp_all
  then have "nat \<bar>sint n\<bar> < 2 ^ 64" by simp
  then show ?thesis by (simp add: Uint64_def)
qed

lemma nonce_numeral:
  "nat_digits (Uint64 (sint (n :: int64))) = int_digits \<bar>sint n\<bar>"
  "0 \<le> sint n \<Longrightarrow> nat_digits (Uint64 (sint n)) = FormatInt n"
  by (simp_all add: Uint64_sint int_digits_def FormatInt_def)

lemma nonce_member:
  "\<exists>kvs. json_of_gnosisTxRequest (proposal from to amount g n h sg) = JObject kvs
         \<and> map_of kvs ''nonce'' = Some (JNumber (FormatInt n))"
  by (simp add: json_of_gnosisTxRequest_def proposal_def)

subsection \<open>The sample library on the examples\<close>

lemma sample_estimate_text:
  \<open>json_text sample_lib (json_of_gasEstimationRequest (estimate_request ''D'' 1000000))
     = Inr (bytes_of ''{"to":"D","value":1000000,"data":null,"operation":0,"gasToken":null}'')\<close>
  by (simp add: sample_lib_def sample_text_def json_of_gasEstimationRequest_def estimate_request_def
        FormatInt_def int_digits_def nat_digits.simps digit_char_def json_of_ptr_def)

lemma sample_decode_gas:
  "decode_gasEstimationResponse (JObject [(''safeTxGas'', JString s)])
     = Inr (gasEstimationResponse_zero\<lparr>gasEstimationResponse.SafeTxGas := s\<rparr>)"
  by (simp add: decode_gasEstimationResponse_def decode_struct_def gasEstimationResponse_member_def
        findField_def gasEstimationResponse_fields_def saveError_def)

lemma sample_proposal_text:
  "json_text sample_lib (json_of_gnosisTxRequest (proposal ''S'' ''D'' 1000000 21000 5 h sg))
     = Inr (sample_proposal_body h sg)"
  by (simp add: sample_lib_def sample_text_def json_of_gnosisTxRequest_def proposal_def
        FormatInt_def int_digits_def nat_digits.simps digit_char_def json_of_ptr_def ZERO_ADDR_def
        sample_proposal_body_def)

lemma sample_post_submit:
  "Post (sample_net r1 r2 r3) (submit_url a) c b = Inr r3"
  by (simp add: sample_net_def submit_url_def)

lemma sample_getSafeNonce:
  \<open>getSafeNonce sample_lib (sample_net (sample_response c ''{"nonce":5}'') r2 r3) a
     = (Inr 5, [HttpGet (nonce_url a), ReadAll])\<close>
proof -
  have "decode_safeNonceResponse (JObject [(''nonce'', JNumber ''5'')])
          = Inr (safeNonceResponse_zero\<lparr>safeNonceResponse.Nonce := 5\<rparr>)"
    by (simp add: decode_safeNonceResponse_def decode_struct_def safeNonceResponse_member_def
          findField_def safeNonceResponse_fields_def saveError_def ParseInt_def ParseUint_def
          is_digit_def digit_val_def uint_cutoff_def maxUint64_def int_cutoff_def)
  then have \<open>Unmarshal sample_lib decode_safeNonceResponse (bytes_of ''{"nonce":5}'')
          = Inr (safeNonceResponse_zero\<lparr>safeNonceResponse.Nonce := 5\<rparr>)\<close>
    by (simp add: Unmarshal_def sample_lib_def sample_scan_def bytes_of_def)
  then show ?thesis
    by (simp add: prod_eq_iff fst_getSafeNonce snd_getSafeNonce sample_net_def sample_response_def)
qed

lemma sample_getGasEstimation:
  \<open>getGasEstimation sample_lib (sample_net r1 (sample_response c ''{"safeTxGas":"21000"}'') r3)
       ''D'' a 1000000
     = (Inr 21000, [HttpPost (estimate_url a) ''application/json'' sample_estimate_body, ReadAll])\<close>
proof -
  have \<open>Unmarshal sample_lib decode_gasEstimationResponse (bytes_of ''{"safeTxGas":"21000"}'')
              = Inr (gasEstimationResponse_zero\<lparr>gasEstimationResponse.SafeTxGas := ''21000''\<rparr>)\<close>
    by (simp add: Unmarshal_def sample_lib_def sample_scan_def bytes_of_def sample_decode_gas)
  moreover have "ParseInt ''21000'' = Inr 21000"
    by (simp add: ParseInt_def ParseUint_def is_digit_def digit_val_def uint_cutoff_def
          maxUint64_def int_cutoff_def)
  moreover have "Post (sample_net r1 r2 r3) (estimate_url a) ct b = Inr r2" for r2 ct b
    by (simp add: sample_net_def estimate_url_def)
  ultimately show ?thesis
    by (simp add: prod_eq_iff fst_getGasEstimation snd_getGasEstimation sample_estimate_text
          sample_response_def sample_estimate_body_def)
qed

lemma sample_encodedTxHash:
  "encodedTxHash sample_lib (gnosisSafeTx sample_lib ''S'' ''D'' ''A'' 1000000 21000 5) = Inr 66"
  by (simp add: encodedTxHash_def sample_lib_def)

lemma sample_Sign_65: "\<forall>d k s. Sign sample_lib d k = Inr s \<longrightarrow> length s = 65"
  by (auto simp: sample_lib_def split: if_splits)

lemma sample_Sign: "Sign sample_lib (Hash_Bytes h) 2 = Inr (replicate 64 2 @ [1])"
  by (simp add: sample_lib_def Hash_Bytes_def)

lemma sample_HexToECDSA: "HexToECDSA sample_lib ''4c'' = Inr 2"
  by (simp add: sample_lib_def)

lemma sample_normalizeV: "normalizeV (replicate 64 x @ [1]) = Some (replicate 64 x @ [28])"
  by (simp add: normalizeV_def nth_append list_update_append)

lemma sample_run:
  "sendTransaction sample_lib sample_world ''S'' ''D'' ''A'' 1000000 ''4c''
     = (Return None,
        [HttpGet (nonce_url ''A''), ReadAll,
         Println [PStr ''nonce:'', PInt64 5],
         HttpPost (estimate_url ''A'') ''application/json'' sample_estimate_body, ReadAll,
         Println [PStr ''safeTxGas:'', PPtr 21000],
         Println [PStr ''encodedTxHash:'', PStr (Hash_Hex 66)],
         HttpPost (submit_url ''A'') ''application/json''
           (sample_proposal_body (Hash_Hex 66) (hexutil_Encode (replicate 64 2 @ [28])))])"
proof -
  have submit: "sendGnosisTx sample_lib sample_world ''S'' ''D'' ''A'' 1000000 21000 5 h sg
      = (None, [HttpPost (submit_url ''A'') ''application/json'' (sample_proposal_body h sg)])" for h sg
    by (simp add: prod_eq_iff fst_sendGnosisTx snd_sendGnosisTx sample_proposal_text
          sample_world_def sample_post_submit sample_response_def StatusOK_def)
  show ?thesis
    by (simp add: sendTransaction_unfold emit_def
          sample_getSafeNonce [unfolded sample_world_def [symmetric]]
          sample_getGasEstimation sample_world_def sample_encodedTxHash sample_HexToECDSA
          sample_Sign sample_normalizeV submit [unfolded sample_world_def])
qed

lemma sample_submit_in_trace:
  "HttpPost (submit_url ''A'') ''application/json''
     (sample_proposal_body (Hash_Hex 66) (hexutil_Encode (replicate 64 2 @ [28])))
   \<in> set (snd (sendTransaction sample_lib sample_world ''S'' ''D'' ''A'' 1000000 ''4c''))"
  by (simp add: sample_run)

lemma sample_typed_writes_nonce: "writes_nonce sample_typed_lib"
  by (simp add: writes_nonce_def sample_typed_lib_def)

lemma decode_nonce_only:
  "ParseInt s = Inr v \<Longrightarrow>
     decode_safeNonceResponse (JObject [(''nonce'', JNumber s)])
       = Inr (safeNonceResponse_zero\<lparr>safeNonceResponse.Nonce := v\<rparr>)"
  by (simp add: decode_safeNonceResponse_def decode_struct_def safeNonceResponse_member_def
        findField_def safeNonceResponse_fields_def saveError_def)

lemma ParseInt_examples: "ParseInt ''5'' = Inr 5" "ParseInt ''-1'' = Inr (- 1)"
  by (simp_all add: ParseInt_def ParseUint_def is_digit_def digit_val_def uint_cutoff_def
        maxUint64_def int_cutoff_def)

lemma sample_typed_getSafeNonce:
  "getSafeNonce sample_typed_lib sample_world ''A'' = (Inr 5, [HttpGet (nonce_url ''A''), ReadAll])"
  "getSafeNonce sample_typed_lib negative_world ''A''
     = (Inr (- 1), [HttpGet (nonce_url ''A''), ReadAll])"
proof -
  have \<open>Unmarshal sample_typed_lib decode_safeNonceResponse (bytes_of ''{"nonce":5}'')
          = Inr (safeNonceResponse_zero\<lparr>safeNonceResponse.Nonce := 5\<rparr>)\<close>
    by (simp add: Unmarshal_def sample_typed_lib_def sample_typed_scan_def sample_scan_def
          bytes_of_def decode_nonce_only [OF ParseInt_examples(1)])
  then show "getSafeNonce sample_typed_lib sample_world ''A''
     = (Inr 5, [HttpGet (nonce_url ''A''), ReadAll])"
    by (simp add: prod_eq_iff fst_getSafeNonce snd_getSafeNonce sample_world_def sample_net_def
          sample_response_def)
  have \<open>Unmarshal sample_typed_lib decode_safeNonceResponse (bytes_of ''{"nonce":-1}'')
          = Inr (safeNonceResponse_zero\<lparr>safeNonceResponse.Nonce := - 1\<rparr>)\<close>
    by (simp add: Unmarshal_def sample_typed_lib_def sample_typed_scan_def
          bytes_of_def decode_nonce_only [OF ParseInt_examples(2)])
  then show "getSafeNonce sample_typed_lib negative_world ''A''
     = (Inr (- 1), [HttpGet (nonce_url ''A''), ReadAll])"
    by (simp add: prod_eq_iff fst_getSafeNonce snd_getSafeNonce negative_world_def sample_net_def
          sample_response_def)
qed

lemma sample_typed_getGasEstimation:
  \<open>getGasEstimation sample_typed_lib
       (sample_net r1 (sample_response c ''{"safeTxGas":"21000"}'') r3) ''D'' a 1000000
     = (Inr 21000, [HttpPost (estimate_url a) ''application/json'' sample_estimate_body, ReadAll])\<close>
proof -
  have \<open>Unmarshal sample_typed_lib decode_gasEstimationResponse (bytes_of ''{"safeTxGas":"21000"}'')
              = Inr (gasEstimationResponse_zero\<lparr>gasEstimationResponse.SafeTxGas := ''21000''\<rparr>)\<close>
    by (simp add: Unmarshal_def sample_typed_lib_def sample_typed_scan_def sample_scan_def
          bytes_of_def sample_decode_gas)
  moreover have "ParseInt ''21000'' = Inr 21000"
    by (simp add: ParseInt_def ParseUint_def is_digit_def digit_val_def uint_cutoff_def
          maxUint64_def int_cutoff_def)
  moreover have "Post (sample_net r1 r2 r3) (estimate_url a) ct b = Inr r2" for r2 ct b
    by (simp add: sample_net_def estimate_url_def)
  moreover have "json_text sample_typed_lib = json_text sample_lib"
    by (simp add: sample_typed_lib_def sample_lib_def)
  ultimately show ?thesis
    by (simp add: prod_eq_iff fst_getGasEstimation snd_getGasEstimation sample_estimate_text
          sample_response_def sample_estimate_body_def)
qed

lemma negative_proposal_text:
  "json_text sample_typed_lib
     (json_of_gnosisTxRequest (proposal ''S'' ''D'' 1000000 21000 (- 1) h sg))
     = Inr (negative_proposal_body h sg)"
  by (simp add: sample_typed_lib_def sample_text_def json_of_gnosisTxRequest_def proposal_def
        FormatInt_def int_digits_def nat_digits.simps digit_char_def json_of_ptr_def ZERO_ADDR_def
        negative_proposal_body_def)

lemma sample_typed_proposal_text:
  "json_text sample_typed_lib
     (json_of_gnosisTxRequest (proposal ''S'' ''D'' 1000000 21000 5 h sg))
     = Inr (sample_proposal_body h sg)"
  using sample_proposal_text [of h sg] by (simp add: sample_typed_lib_def sample_lib_def)

lemma sample_typed_steps:
  "encodedTxHash sample_typed_lib (gnosisSafeTx sample_typed_lib ''S'' ''D'' ''A'' 1000000 g n)
     = Inr 66"
  "HexToECDSA sample_typed_lib ''4c'' = Inr 2"
  "Sign sample_typed_lib (Hash_Bytes h) 2 = Inr (replicate 64 2 @ [1])"
  by (simp_all add: encodedTxHash_def sample_typed_lib_def Hash_Bytes_def)

lemma sample_typed_run:
  "snd (sendTransaction sample_typed_lib sample_world ''S'' ''D'' ''A'' 1000000 ''4c'')
     = [HttpGet (nonce_url ''A''), ReadAll,
        Println [PStr ''nonce:'', PInt64 5],
        HttpPost (estimate_url ''A'') ''application/json'' sample_estimate_body, ReadAll,
        Println [PStr ''safeTxGas:'', PPtr 21000],
        Println [PStr ''encodedTxHash:'', PStr (Hash_Hex 66)],
        HttpPost (submit_url ''A'') ''application/json''
          (sample_proposal_body (Hash_Hex 66) (hexutil_Encode (replicate 64 2 @ [28])))]"
proof -
  have submit: "sendGnosisTx sample_typed_lib sample_world ''S'' ''D'' ''A'' 1000000 21000 5 h sg
      = (None, [HttpPost (submit_url ''A'') ''application/json'' (sample_proposal_body h sg)])" for h sg
    by (simp add: prod_eq_iff fst_sendGnosisTx snd_sendGnosisTx sample_typed_proposal_text
          sample_world_def sample_post_submit sample_response_def StatusOK_def)
  have gas: "getGasEstimation sample_typed_lib sample_world ''D'' ''A'' 1000000
     = (Inr 21000, [HttpPost (estimate_url ''A'') ''application/json'' sample_estimate_body, ReadAll])"
    unfolding sample_world_def by (rule sample_typed_getGasEstimation)
  show ?thesis
    by (simp add: sendTransaction_unfold emit_def sample_typed_getSafeNonce gas
          sample_typed_steps sample_normalizeV submit)
qed

lemma negative_run:
  "snd (sendTransaction sample_typed_lib negative_world ''S'' ''D'' ''A'' 1000000 ''4c'')
     = [HttpGet (nonce_url ''A''), ReadAll,
        Println [PStr ''nonce:'', PInt64 (- 1)],
        HttpPost (estimate_url ''A'') ''application/json'' sample_estimate_body, ReadAll,
        Println [PStr ''safeTxGas:'', PPtr 21000],
        Println [PStr ''encodedTxHash:'', PStr (Hash_Hex 66)],
        HttpPost (submit_url ''A'') ''application/json''
          (negative_proposal_body (Hash_Hex 66) (hexutil_Encode (replicate 64 2 @ [28])))]"
proof -
  have submit: "sendGnosisTx sample_typed_lib negative_world ''S'' ''D'' ''A'' 1000000 21000 (- 1) h sg
      = (None, [HttpPost (submit_url ''A'') ''application/json'' (negative_proposal_body h sg)])" for h sg
    by (simp add: prod_eq_iff fst_sendGnosisTx snd_sendGnosisTx negative_proposal_text
          negative_world_def sample_post_submit sample_response_def StatusOK_def)
  have gas: "getGasEstimation sample_typed_lib negative_world ''D'' ''A'' 1000000
     = (Inr 21000, [HttpPost (estimate_url ''A'') ''application/json'' sample_estimate_body, ReadAll])"
    unfolding negative_world_def by (rule sample_typed_getGasEstimation)
  show ?thesis
    by (simp add: sendTransaction_unfold emit_def sample_typed_getSafeNonce gas
          sample_typed_steps sample_normalizeV submit)
qed

subsection \<open>The digest\<close>

text \<open>
  C1: the digest is the Keccak-256 hash, 32 bytes long, of the two bytes 1 and 19 followed
  by the struct hash of the domain separator and then by the struct hash of the message.
\<close>

theorem encodedTxHash_keccak_of_prefix_and_hashes:
  assumes "HashStruct L (ToTypedData L tx) ''EIP712Domain'' (Domain_Map L (ToTypedData L tx))
             = Inr domainHash"
      and "HashStruct L (ToTypedData L tx) (PrimaryType L (ToTypedData L tx))
             (Message L (ToTypedData L tx)) = Inr messageHash"
  shows "encodedTxHash L tx = Inr (Keccak256Hash L ([1, 19] @ domainHash @ messageHash))
         \<and> length (Hash_Bytes (Keccak256Hash L ([1, 19] @ domainHash @ messageHash))) = 32"
  using assms by (simp add: encodedTxHash_def Hash_Bytes_def)

theorem encodedTxHash_keccak_of_prefix_and_hashes_witness:
  "HashStruct sample_lib (ToTypedData sample_lib (gnosisSafeTx sample_lib ''S'' ''D'' ''A'' 1000000 21000 5))
      ''EIP712Domain''
      (Domain_Map sample_lib (ToTypedData sample_lib (gnosisSafeTx sample_lib ''S'' ''D'' ''A'' 1000000 21000 5)))
     = Inr (replicate 32 6)
   \<and> HashStruct sample_lib (ToTypedData sample_lib (gnosisSafeTx sample_lib ''S'' ''D'' ''A'' 1000000 21000 5))
      (PrimaryType sample_lib (ToTypedData sample_lib (gnosisSafeTx sample_lib ''S'' ''D'' ''A'' 1000000 21000 5)))
      (Message sample_lib (ToTypedData sample_lib (gnosisSafeTx sample_lib ''S'' ''D'' ''A'' 1000000 21000 5)))
     = Inr (replicate 32 1)
   \<and> encodedTxHash sample_lib (gnosisSafeTx sample_lib ''S'' ''D'' ''A'' 1000000 21000 5)
     = Inr (Keccak256Hash sample_lib ([1, 19] @ replicate 32 6 @ replicate 32 1))
   \<and> length (Hash_Bytes (Keccak256Hash sample_lib ([1, 19] @ replicate 32 6 @ replicate 32 1))) = 32"
proof -
  have d: "HashStruct sample_lib (ToTypedData sample_lib (gnosisSafeTx sample_lib ''S'' ''D'' ''A'' 1000000 21000 5))
      ''EIP712Domain''
      (Domain_Map sample_lib (ToTypedData sample_lib (gnosisSafeTx sample_lib ''S'' ''D'' ''A'' 1000000 21000 5)))
     = Inr (replicate 32 6)"
    by (simp add: sample_lib_def)
  have m: "HashStruct sample_lib (ToTypedData sample_lib (gnosisSafeTx sample_lib ''S'' ''D'' ''A'' 1000000 21000 5))
      (PrimaryType sample_lib (ToTypedData sample_lib (gnosisSafeTx sample_lib ''S'' ''D'' ''A'' 1000000 21000 5)))
      (Message sample_lib (ToTypedData sample_lib (gnosisSafeTx sample_lib ''S'' ''D'' ''A'' 1000000 21000 5)))
     = Inr (replicate 32 1)"
    by (simp add: sample_lib_def gnosisSafeTx_def int_digits_def nat_digits.simps digit_char_def)
  from encodedTxHash_keccak_of_prefix_and_hashes [OF d m] d m show ?thesis by simp
qed

text \<open>
  C2: the digest is a function of the tuple (sender, account, destination, value, gas
  figure, nonce) and of the hashing functions alone. Two runs of \<^verbatim>\<open>sendTransaction\<close>
  on the same arguments that fetch the same nonce and the same gas figure compute the
  same digest (or fail with the same error) and print the same digest, whatever the
  network answers, whatever the keys, and whatever the other library functions do.
\<close>

theorem digest_deterministic:
  assumes "same_hashing L1 L2"
      and "fst (getSafeNonce L1 N1 safe) = Inr n"
      and "fst (getSafeNonce L2 N2 safe) = Inr n"
      and "fst (getGasEstimation L1 N1 to safe amount) = Inr g"
      and "fst (getGasEstimation L2 N2 to safe amount) = Inr g"
  shows "encodedTxHash L1 (gnosisSafeTx L1 from to safe amount g n)
           = encodedTxHash L2 (gnosisSafeTx L2 from to safe amount g n)
         \<and> digest_lines (snd (sendTransaction L1 N1 from to safe amount key1))
           = digest_lines (snd (sendTransaction L2 N2 from to safe amount key2))
         \<and> digest_lines (snd (sendTransaction L1 N1 from to safe amount key1))
           = (case encodedTxHash L1 (gnosisSafeTx L1 from to safe amount g n) of
                Inl e \<Rightarrow> []
              | Inr h \<Rightarrow> [Hash_Hex h])"
  using assms
  by (simp add: digest_lines_sendTransaction same_hashing_digest)

theorem digest_deterministic_witness:
  \<open>digest_lines (snd (sendTransaction sample_lib sample_world ''S'' ''D'' ''A'' 1000000 ''4c''))
     = digest_lines (snd (sendTransaction
         (sample_lib\<lparr>Sign := \<lambda>d k. Inl (SignError ''no entropy'')\<rparr>)
         (sample_net (sample_response 404 ''{"nonce":5}'')
            (sample_response 500 ''{"safeTxGas":"21000"}'') (sample_response 400 []))
         ''S'' ''D'' ''A'' 1000000 ''ff00''))
   \<and> digest_lines (snd (sendTransaction sample_lib sample_world ''S'' ''D'' ''A'' 1000000 ''4c''))
     = [Hash_Hex 66]\<close>
proof -
  let ?L2 = "sample_lib\<lparr>Sign := \<lambda>d k. Inl (SignError ''no entropy'')\<rparr>"
  let ?N2 = \<open>sample_net (sample_response 404 ''{"nonce":5}'')
            (sample_response 500 ''{"safeTxGas":"21000"}'') (sample_response 400 [])\<close>
  have same: "same_hashing sample_lib ?L2"
    by (simp add: same_hashing_def)
  have n1: "fst (getSafeNonce sample_lib sample_world ''A'') = Inr 5"
    by (simp add: sample_world_def sample_getSafeNonce)
  have g1: "fst (getGasEstimation sample_lib sample_world ''D'' ''A'' 1000000) = Inr 21000"
    by (simp add: sample_world_def sample_getGasEstimation)
  have n2: "fst (getSafeNonce ?L2 ?N2 ''A'') = Inr 5"
    by (simp add: getSafeNonce_lib_cong [of ?L2 sample_lib] sample_getSafeNonce)
  have g2: "fst (getGasEstimation ?L2 ?N2 ''D'' ''A'' 1000000) = Inr 21000"
    by (simp add: getGasEstimation_lib_cong [of ?L2 sample_lib] sample_getGasEstimation)
  note d = digest_deterministic [OF same n1 n2 g1 g2, of "''S''" "''4c''" "''ff00''"]
  have "digest_lines (snd (sendTransaction sample_lib sample_world ''S'' ''D'' ''A'' 1000000 ''4c''))
     = digest_lines (snd (sendTransaction ?L2 ?N2 ''S'' ''D'' ''A'' 1000000 ''ff00''))"
    by (rule d [THEN conjunct2, THEN conjunct1])
  moreover have "digest_lines (snd (sendTransaction sample_lib sample_world ''S'' ''D'' ''A'' 1000000 ''4c''))
     = [Hash_Hex 66]"
    using d [THEN conjunct2, THEN conjunct2] by (simp add: sample_encodedTxHash)
  ultimately show ?thesis by (rule conjI)
qed

subsection \<open>The recovery identifier\<close>

text \<open>
  C3: on a signature of 65 bytes, the last byte becomes 27 when it is 0 and 28 when it is
  1, any other value stays, and the first 64 bytes (r and s) are not modified.
\<close>

theorem normalizeV_recovery_id:
  assumes "length signature = 65"
  shows "\<exists>signature'. normalizeV signature = Some signature'
           \<and> length signature' = 65
           \<and> signature' ! 64 = (if signature ! 64 = 0 then 27
                                else if signature ! 64 = 1 then 28
                                else signature ! 64)
           \<and> take 64 signature' = take 64 signature"
  using assms by (simp add: normalizeV_def)

theorem normalizeV_recovery_id_witness:
  "length (replicate 64 (7 :: byte) @ [1]) = 65
   \<and> (\<exists>signature'. normalizeV (replicate 64 7 @ [1]) = Some signature'
         \<and> length signature' = 65
         \<and> signature' ! 64 = 28
         \<and> take 64 signature' = replicate 64 7)"
  using normalizeV_recovery_id [of "replicate 64 7 @ [1]"]
  by (simp add: nth_append)

subsection \<open>The gas estimation\<close>

text \<open>
  C7: the estimator parses the field \<^verbatim>\<open>safeTxGas\<close> of the decoded answer as a base-10
  integer: the string 21000 gives the integer 21000, a string that is not a base-10
  integer numeral makes the step fail with a \<^verbatim>\<open>NumError\<close> of \<^verbatim>\<open>ParseInt\<close>, and
  the step returns a value exactly for the numerals within the range of \<^verbatim>\<open>int64\<close>,
  the value of the numeral.
\<close>

theorem getGasEstimation_parses_safeTxGas:
  assumes "json_text L (json_of_gasEstimationRequest (estimate_request to val)) = Inr req"
      and "Post N (estimate_url safe) ''application/json'' req = Inr resp"
      and "Body resp = Inr body"
      and "Unmarshal L decode_gasEstimationResponse body = Inr data"
  shows "(gasEstimationResponse.SafeTxGas data = ''21000''
            \<longrightarrow> fst (getGasEstimation L N to safe val) = Inr 21000)
         \<and> (\<not> is_base10_integer (gasEstimationResponse.SafeTxGas data)
            \<longrightarrow> (\<exists>k. fst (getGasEstimation L N to safe val)
                        = Inl (NumError ''ParseInt'' (gasEstimationResponse.SafeTxGas data) k)))
         \<and> (\<forall>v. fst (getGasEstimation L N to safe val) = Inr v
              \<longleftrightarrow> is_base10_integer (gasEstimationResponse.SafeTxGas data)
                  \<and> - (2 ^ 63) \<le> int_value (gasEstimationResponse.SafeTxGas data)
                  \<and> int_value (gasEstimationResponse.SafeTxGas data) < 2 ^ 63
                  \<and> v = word_of_int (int_value (gasEstimationResponse.SafeTxGas data)))"
proof -
  have res: "fst (getGasEstimation L N to safe val) = ParseInt (gasEstimationResponse.SafeTxGas data)"
    using assms by (simp add: fst_getGasEstimation)
  have "ParseInt ''21000'' = Inr 21000"
    by (simp add: ParseInt_def ParseUint_def is_digit_def digit_val_def uint_cutoff_def
          maxUint64_def int_cutoff_def)
  then show ?thesis
    unfolding res using ParseInt_invalid [of "gasEstimationResponse.SafeTxGas data"]
    by (auto simp: ParseInt_Inr)
qed

theorem getGasEstimation_parses_safeTxGas_witness:
  \<open>json_text sample_lib (json_of_gasEstimationRequest (estimate_request ''D'' 1000000))
     = Inr (bytes_of ''{"to":"D","value":1000000,"data":null,"operation":0,"gasToken":null}'')
   \<and> fst (getGasEstimation sample_lib
            (sample_net (sample_response 200 ''{"nonce":5}'')
               (sample_response 200 ''{"safeTxGas":"21000"}'') (sample_response 200 []))
            ''D'' ''A'' 1000000) = Inr 21000
   \<and> \<not> is_base10_integer ''abc''
   \<and> (\<exists>k. fst (getGasEstimation sample_lib
            (sample_net (sample_response 200 ''{"nonce":5}'')
               (sample_response 200 ''{"safeTxGas":"abc"}'') (sample_response 200 []))
            ''D'' ''A'' 1000000) = Inl (NumError ''ParseInt'' ''abc'' k))\<close>
proof -
  let ?N = \<open>\<lambda>t. sample_net (sample_response 200 ''{"nonce":5}'') (sample_response 200 t)
                   (sample_response 200 [])\<close>
  let ?req = \<open>bytes_of ''{"to":"D","value":1000000,"data":null,"operation":0,"gasToken":null}''\<close>
  have post: "Post (?N t) (estimate_url ''A'') ''application/json'' ?req = Inr (sample_response 200 t)"
    for t by (simp add: sample_net_def estimate_url_def)
  have body: "Body (sample_response 200 t) = Inr (bytes_of t)" for t
    by (simp add: sample_response_def)
  have u1: \<open>Unmarshal sample_lib decode_gasEstimationResponse (bytes_of ''{"safeTxGas":"21000"}'')
              = Inr (gasEstimationResponse_zero\<lparr>gasEstimationResponse.SafeTxGas := ''21000''\<rparr>)\<close>
    by (simp add: Unmarshal_def sample_lib_def sample_scan_def bytes_of_def sample_decode_gas)
  have u2: \<open>Unmarshal sample_lib decode_gasEstimationResponse (bytes_of ''{"safeTxGas":"abc"}'')
              = Inr (gasEstimationResponse_zero\<lparr>gasEstimationResponse.SafeTxGas := ''abc''\<rparr>)\<close>
    by (simp add: Unmarshal_def sample_lib_def sample_scan_def bytes_of_def sample_decode_gas)
  have abc: "\<not> is_base10_integer ''abc''"
    by (simp add: is_base10_integer_def unsigned_part_def is_digit_def)
  from getGasEstimation_parses_safeTxGas [OF sample_estimate_text post body u1]
       getGasEstimation_parses_safeTxGas [OF sample_estimate_text post body u2]
       abc sample_estimate_text
  show ?thesis by simp
qed

subsection \<open>The submission\<close>

text \<open>
  C5, as the code has it: when the status of the answer to the submission is 200, the
  submitter returns \<^verbatim>\<open>nil\<close> whatever the body is, and its only effect is the request:
  the body is not read. For any other status, the other success statuses of HTTP included,
  it reads the body and returns an error: the error of reading, the error of decoding, or
  the validation messages joined.
\<close>

theorem sendGnosisTx_status_ok:
  assumes "json_text L (json_of_gnosisTxRequest (proposal from to amount g n h s)) = Inr req"
      and "Post N (submit_url safe) ''application/json'' req = Inr resp"
  shows "(StatusCode resp = 200 \<longrightarrow>
            sendGnosisTx L N from to safe amount g n h s
              = (None, [HttpPost (submit_url safe) ''application/json'' req]))
         \<and> (StatusCode resp \<noteq> 200 \<longrightarrow>
              snd (sendGnosisTx L N from to safe amount g n h s)
                = [HttpPost (submit_url safe) ''application/json'' req, ReadAll]
            \<and> fst (sendGnosisTx L N from to safe amount g n h s)
                = (case Body resp of
                     Inl e \<Rightarrow> Some e
                   | Inr body \<Rightarrow>
                       (case Unmarshal L decode_gnosisTxErrResponse body of
                          Inl e \<Rightarrow> Some e
                        | Inr data \<Rightarrow>
                            Some (ErrorString (Join (NonFieldErrors data) [CHR 0x0A]))))
            \<and> fst (sendGnosisTx L N from to safe amount g n h s) \<noteq> None)"
  using assms
  by (simp add: prod_eq_iff fst_sendGnosisTx snd_sendGnosisTx StatusOK_def split: sum.splits)

theorem sendGnosisTx_status_ok_witness:
  "sendGnosisTx sample_lib sample_world ''S'' ''D'' ''A'' 1000000 21000 5 ''0x42'' ''0x1c''
     = (None,
        [HttpPost (submit_url ''A'') ''application/json'' (sample_proposal_body ''0x42'' ''0x1c'')])
   \<and> snd (sendGnosisTx sample_lib
            (sample_net (sample_response 200 []) (sample_response 200 []) (sample_response 201 []))
            ''S'' ''D'' ''A'' 1000000 21000 5 ''0x42'' ''0x1c'')
     = [HttpPost (submit_url ''A'') ''application/json'' (sample_proposal_body ''0x42'' ''0x1c''),
        ReadAll]
   \<and> fst (sendGnosisTx sample_lib
            (sample_net (sample_response 200 []) (sample_response 200 []) (sample_response 201 []))
            ''S'' ''D'' ''A'' 1000000 21000 5 ''0x42'' ''0x1c'')
     = Some (SyntaxError ''unexpected end of JSON input'')"
proof -
  have u: "Unmarshal sample_lib decode_gnosisTxErrResponse []
             = Inl (SyntaxError ''unexpected end of JSON input'')"
    by (simp add: Unmarshal_def sample_lib_def sample_scan_def)
  have ok: "sendGnosisTx sample_lib sample_world ''S'' ''D'' ''A'' 1000000 21000 5 ''0x42'' ''0x1c''
     = (None,
        [HttpPost (submit_url ''A'') ''application/json'' (sample_proposal_body ''0x42'' ''0x1c'')])"
    using sendGnosisTx_status_ok [OF sample_proposal_text [of "''0x42''" "''0x1c''"]
            sample_post_submit [of _ _ "sample_response 200 []" "''A''"]]
    unfolding sample_world_def by (simp add: sample_response_def)
  note t = sendGnosisTx_status_ok [OF sample_proposal_text [of "''0x42''" "''0x1c''"]
            sample_post_submit [of "sample_response 200 []" "sample_response 200 []"
               "sample_response 201 []" "''A''"]]
  have tr: "snd (sendGnosisTx sample_lib
            (sample_net (sample_response 200 []) (sample_response 200 []) (sample_response 201 []))
            ''S'' ''D'' ''A'' 1000000 21000 5 ''0x42'' ''0x1c'')
     = [HttpPost (submit_url ''A'') ''application/json'' (sample_proposal_body ''0x42'' ''0x1c''),
        ReadAll]"
    using t by (simp add: sample_response_def)
  have er: "fst (sendGnosisTx sample_lib
            (sample_net (sample_response 200 []) (sample_response 200 []) (sample_response 201 []))
            ''S'' ''D'' ''A'' 1000000 21000 5 ''0x42'' ''0x1c'')
     = Some (SyntaxError ''unexpected end of JSON input'')"
    using t by (simp add: sample_response_def bytes_of_def u)
  from ok tr er show ?thesis by (intro conjI)
qed

text \<open>
  The claim C5 as it is stated fails at the success status 201: the submitter reads the
  body, here an empty one, and returns the error of decoding it.
\<close>

theorem sendGnosisTx_success_status_counterexample:
  \<open>is_success_status 201
   \<and> fst (sendGnosisTx sample_lib
       (sample_net (sample_response 200 ''{"nonce":5}'') (sample_response 200 ''{"safeTxGas":"21000"}'')
          (sample_response 201 []))
       ''S'' ''D'' ''A'' 1000000 21000 5 ''0x42'' ''0x1c'')
     = Some (SyntaxError ''unexpected end of JSON input'')
   \<and> ReadAll \<in> set (snd (sendGnosisTx sample_lib
       (sample_net (sample_response 200 ''{"nonce":5}'') (sample_response 200 ''{"safeTxGas":"21000"}'')
          (sample_response 201 []))
       ''S'' ''D'' ''A'' 1000000 21000 5 ''0x42'' ''0x1c''))\<close>
proof -
  have "Unmarshal sample_lib decode_gnosisTxErrResponse []
          = Inl (SyntaxError ''unexpected end of JSON input'')"
    by (simp add: Unmarshal_def sample_lib_def sample_scan_def)
  then show ?thesis
    by (simp add: is_success_status_def fst_sendGnosisTx snd_sendGnosisTx sample_proposal_text
          sample_post_submit sample_response_def StatusOK_def bytes_of_def)
qed

text \<open>
  C6: when the status of the answer is not 200 and its body decodes into the error
  struct, the submitter returns the error whose message is the list
  \<^verbatim>\<open>nonFieldErrors\<close> joined with newlines, in the order of the list: for a body
  that is an object with the one member \<^verbatim>\<open>nonFieldErrors\<close>, an array of strings, the
  message is these strings joined; for the two messages of the example, the first, a
  newline and the second.
\<close>

theorem sendGnosisTx_rejected:
  assumes "json_text L (json_of_gnosisTxRequest (proposal from to amount g n h s)) = Inr req"
      and "Post N (submit_url safe) ''application/json'' req = Inr resp"
      and "StatusCode resp \<noteq> 200"
      and "Body resp = Inr body"
      and "json_scan L body = Inr j"
      and "decode_gnosisTxErrResponse j = Inr data"
  shows "fst (sendGnosisTx L N from to safe amount g n h s)
           = Some (ErrorString (Join (NonFieldErrors data) [CHR 0x0A]))
         \<and> (\<forall>xs. j = JObject [(''nonFieldErrors'', JArray (map JString xs))]
              \<longrightarrow> fst (sendGnosisTx L N from to safe amount g n h s)
                    = Some (ErrorString (Join xs [CHR 0x0A])))
         \<and> (j = JObject [(''nonFieldErrors'',
                           JArray [JString ''Nonce too low'', JString ''Invalid signature''])]
            \<longrightarrow> fst (sendGnosisTx L N from to safe amount g n h s)
                  = Some (ErrorString (''Nonce too low'' @ [CHR 0x0A] @ ''Invalid signature'')))"
proof -
  have res: "fst (sendGnosisTx L N from to safe amount g n h s)
           = Some (ErrorString (Join (NonFieldErrors data) [CHR 0x0A]))"
    using assms by (simp add: fst_sendGnosisTx Unmarshal_def StatusOK_def)
  have list: "NonFieldErrors data = xs"
    if "j = JObject [(''nonFieldErrors'', JArray (map JString xs))]" for xs
    using assms(6) decode_gnosisTxErrResponse_strings [of xs] unfolding that by auto
  have two: "NonFieldErrors data = [''Nonce too low'', ''Invalid signature'']"
    if "j = JObject [(''nonFieldErrors'',
                      JArray [JString ''Nonce too low'', JString ''Invalid signature''])]"
    using list [of "[''Nonce too low'', ''Invalid signature'']"] that by simp
  show ?thesis
  proof (intro conjI allI impI)
    show "fst (sendGnosisTx L N from to safe amount g n h s)
            = Some (ErrorString (Join (NonFieldErrors data) [CHR 0x0A]))"
      by (rule res)
  next
    fix xs
    assume "j = JObject [(''nonFieldErrors'', JArray (map JString xs))]"
    then show "fst (sendGnosisTx L N from to safe amount g n h s)
                 = Some (ErrorString (Join xs [CHR 0x0A]))"
      using res list by simp
  next
    assume "j = JObject [(''nonFieldErrors'',
                          JArray [JString ''Nonce too low'', JString ''Invalid signature''])]"
    then show "fst (sendGnosisTx L N from to safe amount g n h s)
                 = Some (ErrorString (''Nonce too low'' @ [CHR 0x0A] @ ''Invalid signature''))"
      using res two by (simp del: Join.simps add: Join_two)
  qed
qed

theorem sendGnosisTx_rejected_witness:
  \<open>fst (sendGnosisTx sample_lib
       (sample_net (sample_response 200 ''{"nonce":5}'') (sample_response 200 ''{"safeTxGas":"21000"}'')
          (sample_response 400 ''{"nonFieldErrors":["Nonce too low","Invalid signature"]}''))
       ''S'' ''D'' ''A'' 1000000 21000 5 ''0x42'' ''0x1c'')
     = Some (ErrorString (''Nonce too low'' @ [CHR 0x0A] @ ''Invalid signature''))\<close>
proof -
  let ?r = \<open>sample_response 400 ''{"nonFieldErrors":["Nonce too low","Invalid signature"]}''\<close>
  let ?j = "JObject [(''nonFieldErrors'',
                      JArray [JString ''Nonce too low'', JString ''Invalid signature''])]"
  have st: "StatusCode ?r \<noteq> 200" by (simp add: sample_response_def)
  have body: \<open>Body ?r = Inr (bytes_of ''{"nonFieldErrors":["Nonce too low","Invalid signature"]}'')\<close>
    by (simp add: sample_response_def)
  have scan: \<open>json_scan sample_lib
                (bytes_of ''{"nonFieldErrors":["Nonce too low","Invalid signature"]}'') = Inr ?j\<close>
    by (simp add: sample_lib_def sample_scan_def bytes_of_def)
  have dec: "decode_gnosisTxErrResponse ?j
               = Inr \<lparr>NonFieldErrors = [''Nonce too low'', ''Invalid signature'']\<rparr>"
    using decode_gnosisTxErrResponse_strings [of "[''Nonce too low'', ''Invalid signature'']"]
    by simp
  from sendGnosisTx_rejected [OF sample_proposal_text sample_post_submit st body scan dec]
  show ?thesis by simp
qed

subsection \<open>The orchestrator\<close>

text \<open>
  C4: \<^verbatim>\<open>sendTransaction\<close> fetches the nonce, estimates the gas, builds the digest,
  signs and submits, in this order. When a step fails, the error of that step is what is
  returned, and the trace ends with the events of that step: nothing of a later step,
  nothing twice. The HTTP requests of a run are a prefix of: the GET of the nonce, the
  POST of the estimation, the POST of the proposal. (The signing primitive returns 65
  bytes when it succeeds.)
\<close>

theorem sendTransaction_sequence:
  assumes sig65: "\<forall>d k s. Sign L d k = Inr s \<longrightarrow> length s = 65"
  shows
    "(let r1 = getSafeNonce L N safe;
          r2 = getGasEstimation L N to safe amount;
          run = sendTransaction L N from to safe amount privKey
      in (\<forall>e. fst r1 = Inl e \<longrightarrow> run = (Return (Some e), snd r1))
       \<and> (\<forall>n. fst r1 = Inr n \<longrightarrow>
            (\<forall>e. fst r2 = Inl e \<longrightarrow>
               run = (Return (Some e), snd r1 @ [Println [PStr ''nonce:'', PInt64 n]] @ snd r2))
          \<and> (\<forall>g. fst r2 = Inr g \<longrightarrow>
               (let t2 = snd r1 @ [Println [PStr ''nonce:'', PInt64 n]] @ snd r2
                           @ [Println [PStr ''safeTxGas:'', PPtr g]];
                    digest = encodedTxHash L (gnosisSafeTx L from to safe amount g n)
                in (\<forall>e. digest = Inl e \<longrightarrow> run = (Return (Some e), t2))
                 \<and> (\<forall>h. digest = Inr h \<longrightarrow>
                      (let t3 = t2 @ [Println [PStr ''encodedTxHash:'', PStr (Hash_Hex h)]]
                       in (\<forall>e. HexToECDSA L privKey = Inl e \<longrightarrow> run = (Return (Some e), t3))
                        \<and> (\<forall>key. HexToECDSA L privKey = Inr key \<longrightarrow>
                             (\<forall>e. Sign L (Hash_Bytes h) key = Inl e \<longrightarrow>
                                run = (Return (Some e), t3))
                           \<and> (\<forall>s. Sign L (Hash_Bytes h) key = Inr s \<longrightarrow>
                                (\<exists>s'. normalizeV s = Some s'
                                   \<and> run = (Return (fst (sendGnosisTx L N from to safe amount g n
                                                          (Hash_Hex h) (hexutil_Encode s'))),
                                            t3 @ snd (sendGnosisTx L N from to safe amount g n
                                                        (Hash_Hex h) (hexutil_Encode s')))))))))))
       \<and> (\<exists>b2 b3. prefix (requests (snd run))
             [HttpGet (nonce_url safe), HttpPost (estimate_url safe) ''application/json'' b2,
              HttpPost (submit_url safe) ''application/json'' b3]))"
proof -
  have norm: "\<exists>s'. normalizeV s = Some s'" if "Sign L d k = Inr s" for d k s
    using sig65 that by (auto intro: normalizeV_65)
  show ?thesis
    unfolding Let_def
  proof (intro conjI allI impI)
    fix n g h key s
    assume "fst (getSafeNonce L N safe) = Inr n"
      and "fst (getGasEstimation L N to safe amount) = Inr g"
      and "encodedTxHash L (gnosisSafeTx L from to safe amount g n) = Inr h"
      and "HexToECDSA L privKey = Inr key"
      and s: "Sign L (Hash_Bytes h) key = Inr s"
    moreover from norm [OF s] obtain s' where "normalizeV s = Some s'" ..
    ultimately show "\<exists>s'. normalizeV s = Some s'
        \<and> sendTransaction L N from to safe amount privKey =
           (Return (fst (sendGnosisTx L N from to safe amount g n (Hash_Hex h) (hexutil_Encode s'))),
            ((snd (getSafeNonce L N safe) @ [Println [PStr ''nonce:'', PInt64 n]]
               @ snd (getGasEstimation L N to safe amount) @ [Println [PStr ''safeTxGas:'', PPtr g]])
              @ [Println [PStr ''encodedTxHash:'', PStr (Hash_Hex h)]])
              @ snd (sendGnosisTx L N from to safe amount g n (Hash_Hex h) (hexutil_Encode s')))"
      by (simp add: sendTransaction_unfold emit_def)
  next
    show "\<exists>b2 b3. prefix (requests (snd (sendTransaction L N from to safe amount privKey)))
             [HttpGet (nonce_url safe), HttpPost (estimate_url safe) ''application/json'' b2,
              HttpPost (submit_url safe) ''application/json'' b3]"
      by (rule requests_sendTransaction)
  qed (simp_all add: sendTransaction_unfold emit_def)
qed

theorem sendTransaction_sequence_witness:
  "sendTransaction sample_lib sample_world ''S'' ''D'' ''A'' 1000000 ''4c''
     = (Return None,
        [HttpGet (nonce_url ''A''), ReadAll,
         Println [PStr ''nonce:'', PInt64 5],
         HttpPost (estimate_url ''A'') ''application/json'' sample_estimate_body, ReadAll,
         Println [PStr ''safeTxGas:'', PPtr 21000],
         Println [PStr ''encodedTxHash:'', PStr (Hash_Hex 66)],
         HttpPost (submit_url ''A'') ''application/json''
           (sample_proposal_body (Hash_Hex 66) (hexutil_Encode (replicate 64 2 @ [28])))])"
proof -
  have submit: "sendGnosisTx sample_lib sample_world ''S'' ''D'' ''A'' 1000000 21000 5 h sg
      = (None, [HttpPost (submit_url ''A'') ''application/json'' (sample_proposal_body h sg)])" for h sg
    by (simp add: prod_eq_iff fst_sendGnosisTx snd_sendGnosisTx sample_proposal_text
          sample_world_def sample_post_submit sample_response_def StatusOK_def)
  from sendTransaction_sequence [OF sample_Sign_65, of sample_world "''A''" "''D''" 1000000 "''S''" "''4c''"]
  show ?thesis
    by (simp add: Let_def sample_getSafeNonce [unfolded sample_world_def [symmetric]]
          sample_getGasEstimation sample_world_def sample_encodedTxHash sample_HexToECDSA
          sample_Sign sample_normalizeV submit [unfolded sample_world_def])
qed

text \<open>
  C8, as the code has it: a proposal that \<^verbatim>\<open>sendTransaction\<close> submits has operation
  0, the zero address as gas token and as refund receiver, gas price 0 and base gas 0; its
  nonce is the nonce fetched at the start of the run. The digest in the proposal, the one
  that is signed, is the hash of the message of the Safe transaction with that nonce and
  the same fixed fields; the nonce written in that message is the magnitude of the fetched
  nonce, so it is the nonce of the proposal when the fetched nonce is not negative.
\<close>

theorem submitted_proposal_invariants:
  fixes L :: "('td, TypedDataMessage, 'k) lib"
  assumes "writes_nonce L"
      and "HttpPost (submit_url safe) c b
             \<in> set (snd (sendTransaction L N from to safe amount privKey))"
  shows "\<exists>n g h sg domainHash messageHash key signature.
           fst (getSafeNonce L N safe) = Inr n
         \<and> fst (getGasEstimation L N to safe amount) = Inr g
         \<and> encodedTxHash L (gnosisSafeTx L from to safe amount g n) = Inr h
         \<and> (let r = proposal from to amount g n (Hash_Hex h) sg;
                 tx = gnosisSafeTx L from to safe amount g n;
                 td = ToTypedData L tx
             in json_text L (json_of_gnosisTxRequest r) = Inr b
              \<and> gnosisTxRequest.Operation r = 0
              \<and> gnosisTxRequest.GasToken r = ZERO_ADDR
              \<and> gnosisTxRequest.RefundReceiver r = ZERO_ADDR
              \<and> gnosisTxRequest.GasPrice r = 0
              \<and> gnosisTxRequest.BaseGas r = 0
              \<and> gnosisTxRequest.Nonce r = n
              \<and> (\<exists>kvs. json_of_gnosisTxRequest r = JObject kvs
                     \<and> map_of kvs ''nonce'' = Some (JNumber (FormatInt n)))
              \<and> gnosisTxRequest.ContractTransactionHash r = Hash_Hex h
              \<and> HashStruct L td ''EIP712Domain'' (Domain_Map L td) = Inr domainHash
              \<and> HashStruct L td (PrimaryType L td) (Message L td) = Inr messageHash
              \<and> h = Keccak256Hash L ([1, 19] @ domainHash @ messageHash)
              \<and> HexToECDSA L privKey = Inr key
              \<and> Sign L (Hash_Bytes h) key = Inr signature
              \<and> Message L td ''nonce'' = Some (TString (int_digits \<bar>sint n\<bar>))
              \<and> (0 \<le> sint n \<longrightarrow> Message L td ''nonce'' = Some (TString (FormatInt n)))
              \<and> GnosisSafeTx.Nonce tx = sint n
              \<and> GnosisSafeTx.Operation tx = 0
              \<and> GnosisSafeTx.GasToken tx = HexToAddress L ZERO_ADDR
              \<and> GnosisSafeTx.RefundReceiver tx = HexToAddress L ZERO_ADDR
              \<and> GnosisSafeTx.GasPrice tx = 0
              \<and> GnosisSafeTx.BaseGas tx = 0)"
proof -
  from submit_in_trace [OF assms(2)] obtain n g h key s s' where *:
    "fst (getSafeNonce L N safe) = Inr n"
    "fst (getGasEstimation L N to safe amount) = Inr g"
    "encodedTxHash L (gnosisSafeTx L from to safe amount g n) = Inr h"
    "HexToECDSA L privKey = Inr key"
    "Sign L (Hash_Bytes h) key = Inr s"
    "json_text L (json_of_gnosisTxRequest
        (proposal from to amount g n (Hash_Hex h) (hexutil_Encode s'))) = Inr b"
    by blast
  from encodedTxHash_Inr [OF *(3)] obtain dh mh where h:
    "HashStruct L (ToTypedData L (gnosisSafeTx L from to safe amount g n)) ''EIP712Domain''
       (Domain_Map L (ToTypedData L (gnosisSafeTx L from to safe amount g n))) = Inr dh"
    "HashStruct L (ToTypedData L (gnosisSafeTx L from to safe amount g n))
       (PrimaryType L (ToTypedData L (gnosisSafeTx L from to safe amount g n)))
       (Message L (ToTypedData L (gnosisSafeTx L from to safe amount g n))) = Inr mh"
    "h = Keccak256Hash L ([1, 19] @ dh @ mh)"
    by blast
  have tx: "GnosisSafeTx.Nonce (gnosisSafeTx L from to safe amount g n) = sint n"
    by (simp add: gnosisSafeTx_def)
  have m: "Message L (ToTypedData L (gnosisSafeTx L from to safe amount g n)) ''nonce''
             = Some (TString (nat_digits (Uint64 (sint n))))"
    using assms(1) unfolding writes_nonce_def tx [symmetric] by blast
  have fields: "gnosisTxRequest.Operation (proposal from to amount g n hh sg) = 0"
    "gnosisTxRequest.GasToken (proposal from to amount g n hh sg) = ZERO_ADDR"
    "gnosisTxRequest.RefundReceiver (proposal from to amount g n hh sg) = ZERO_ADDR"
    "gnosisTxRequest.GasPrice (proposal from to amount g n hh sg) = 0"
    "gnosisTxRequest.BaseGas (proposal from to amount g n hh sg) = 0"
    "gnosisTxRequest.Nonce (proposal from to amount g n hh sg) = n"
    "gnosisTxRequest.ContractTransactionHash (proposal from to amount g n hh sg) = hh"
    for hh sg by (simp_all add: proposal_def)
  have txf: "GnosisSafeTx.Operation (gnosisSafeTx L from to safe amount g n) = 0"
    "GnosisSafeTx.GasToken (gnosisSafeTx L from to safe amount g n) = HexToAddress L ZERO_ADDR"
    "GnosisSafeTx.RefundReceiver (gnosisSafeTx L from to safe amount g n) = HexToAddress L ZERO_ADDR"
    "GnosisSafeTx.GasPrice (gnosisSafeTx L from to safe amount g n) = 0"
    "GnosisSafeTx.BaseGas (gnosisSafeTx L from to safe amount g n) = 0"
    by (simp_all add: gnosisSafeTx_def)
  show ?thesis
    apply (rule exI [of _ n], rule exI [of _ g], rule exI [of _ h],
           rule exI [of _ "hexutil_Encode s'"], rule exI [of _ dh], rule exI [of _ mh],
           rule exI [of _ key], rule exI [of _ s])
    unfolding Let_def
    using * h tx m fields txf nonce_member [of "from" to amount g n "Hash_Hex h" "hexutil_Encode s'"]
    by (simp add: nonce_numeral FormatInt_def)
qed

theorem submitted_proposal_invariants_witness:
  "writes_nonce sample_typed_lib
   \<and> HttpPost (submit_url ''A'') ''application/json''
       (sample_proposal_body (Hash_Hex 66) (hexutil_Encode (replicate 64 2 @ [28])))
     \<in> set (snd (sendTransaction sample_typed_lib sample_world ''S'' ''D'' ''A'' 1000000 ''4c''))
   \<and> Message sample_typed_lib
        (ToTypedData sample_typed_lib (gnosisSafeTx sample_typed_lib ''S'' ''D'' ''A'' 1000000 21000 5))
        ''nonce'' = Some (TString (FormatInt 5))
   \<and> gnosisTxRequest.Nonce (proposal ''S'' ''D'' 1000000 21000 5 (Hash_Hex 66) []) = 5"
proof -
  have mem: "HttpPost (submit_url ''A'') ''application/json''
       (sample_proposal_body (Hash_Hex 66) (hexutil_Encode (replicate 64 2 @ [28])))
     \<in> set (snd (sendTransaction sample_typed_lib sample_world ''S'' ''D'' ''A'' 1000000 ''4c''))"
    by (simp add: sample_typed_run)
  from submitted_proposal_invariants [OF sample_typed_writes_nonce mem]
  obtain n g where
    n: "fst (getSafeNonce sample_typed_lib sample_world ''A'') = Inr n" and
    g: "fst (getGasEstimation sample_typed_lib sample_world ''D'' ''A'' 1000000) = Inr g" and
    m: "0 \<le> sint n \<longrightarrow>
        Message sample_typed_lib
          (ToTypedData sample_typed_lib (gnosisSafeTx sample_typed_lib ''S'' ''D'' ''A'' 1000000 g n))
          ''nonce'' = Some (TString (FormatInt n))"
    unfolding Let_def by blast
  have "n = 5" using n by (simp add: sample_typed_getSafeNonce)
  moreover have "g = 21000"
    using g sample_typed_getGasEstimation [of _ 200 _ "''A''"] by (simp add: sample_world_def)
  ultimately have "Message sample_typed_lib
        (ToTypedData sample_typed_lib (gnosisSafeTx sample_typed_lib ''S'' ''D'' ''A'' 1000000 21000 5))
        ''nonce'' = Some (TString (FormatInt 5))"
    using m by simp
  with sample_typed_writes_nonce mem show ?thesis by (simp add: proposal_def)
qed

text \<open>
  The claim C8 as it is stated fails when the nonce fetched is negative: for the nonce -1,
  the proposal submitted has the nonce -1 and the message hashed into its digest has the
  nonce 1.
\<close>

theorem submitted_nonce_counterexample:
  "HttpPost (submit_url ''A'') ''application/json''
       (negative_proposal_body (Hash_Hex 66) (hexutil_Encode (replicate 64 2 @ [28])))
     \<in> set (snd (sendTransaction sample_typed_lib negative_world ''S'' ''D'' ''A'' 1000000 ''4c''))
   \<and> fst (getSafeNonce sample_typed_lib negative_world ''A'') = Inr (- 1)
   \<and> json_text sample_typed_lib (json_of_gnosisTxRequest
        (proposal ''S'' ''D'' 1000000 21000 (- 1) (Hash_Hex 66)
           (hexutil_Encode (replicate 64 2 @ [28]))))
       = Inr (negative_proposal_body (Hash_Hex 66) (hexutil_Encode (replicate 64 2 @ [28])))
   \<and> gnosisTxRequest.Nonce (proposal ''S'' ''D'' 1000000 21000 (- 1) (Hash_Hex 66)
           (hexutil_Encode (replicate 64 2 @ [28]))) = - 1
   \<and> FormatInt (- 1) = ''-1''
   \<and> encodedTxHash sample_typed_lib
        (gnosisSafeTx sample_typed_lib ''S'' ''D'' ''A'' 1000000 21000 (- 1)) = Inr 66
   \<and> Message sample_typed_lib
        (ToTypedData sample_typed_lib
           (gnosisSafeTx sample_typed_lib ''S'' ''D'' ''A'' 1000000 21000 (- 1)))
        ''nonce'' = Some (TString ''1'')"
proof -
  have "Message sample_typed_lib
        (ToTypedData sample_typed_lib
           (gnosisSafeTx sample_typed_lib ''S'' ''D'' ''A'' 1000000 21000 (- 1)))
        ''nonce'' = Some (TString ''1'')"
    by (simp add: sample_typed_lib_def gnosisSafeTx_def Uint64_def nat_digits.simps digit_char_def)
  moreover have "FormatInt (- 1) = ''-1''"
    by (simp add: FormatInt_def int_digits_def nat_digits.simps digit_char_def)
  moreover have "gnosisTxRequest.Nonce (proposal ''S'' ''D'' 1000000 21000 (- 1) (Hash_Hex 66)
           (hexutil_Encode (replicate 64 2 @ [28]))) = - 1"
    by (simp add: proposal_def)
  ultimately show ?thesis
    by (simp add: negative_run sample_typed_getSafeNonce negative_proposal_text
          sample_typed_steps)
qed

text \<open>
  C10: in a proposal that \<^verbatim>\<open>sendTransaction\<close> submits, the field
  \<^verbatim>\<open>contractTransactionHash\<close> is the hexadecimal encoding of the bytes of the digest
  that were given to \<^verbatim>\<open>crypto.Sign\<close>, and the field \<^verbatim>\<open>signature\<close> is the
  hexadecimal encoding of the signature of these bytes, its last byte normalized.
\<close>

theorem submitted_hash_and_signature:
  assumes "HttpPost (submit_url safe) c b
             \<in> set (snd (sendTransaction L N from to safe amount privKey))"
  shows "\<exists>n g h key s s'.
           encodedTxHash L (gnosisSafeTx L from to safe amount g n) = Inr h
         \<and> HexToECDSA L privKey = Inr key
         \<and> Sign L (Hash_Bytes h) key = Inr s
         \<and> normalizeV s = Some s'
         \<and> (let r = proposal from to amount g n (Hash_Hex h) (hexutil_Encode s')
             in json_text L (json_of_gnosisTxRequest r) = Inr b
              \<and> gnosisTxRequest.ContractTransactionHash r = hexutil_Encode (Hash_Bytes h)
              \<and> gnosisTxRequest.Signature r = hexutil_Encode s')"
proof -
  from submit_in_trace [OF assms] obtain n g h key s s' where
    "encodedTxHash L (gnosisSafeTx L from to safe amount g n) = Inr h"
    "HexToECDSA L privKey = Inr key"
    "Sign L (Hash_Bytes h) key = Inr s"
    "normalizeV s = Some s'"
    "json_text L (json_of_gnosisTxRequest
        (proposal from to amount g n (Hash_Hex h) (hexutil_Encode s'))) = Inr b"
    by blast
  then show ?thesis
    by (intro exI [of _ n] exI [of _ g] exI [of _ h] exI [of _ key] exI [of _ s] exI [of _ s'])
       (simp add: Let_def proposal_def Hash_Hex_def)
qed

theorem submitted_hash_and_signature_witness:
  "HttpPost (submit_url ''A'') ''application/json''
     (sample_proposal_body (Hash_Hex 66) (hexutil_Encode (replicate 64 2 @ [28])))
   \<in> set (snd (sendTransaction sample_lib sample_world ''S'' ''D'' ''A'' 1000000 ''4c''))
   \<and> (\<exists>n g s'. json_text sample_lib (json_of_gnosisTxRequest
               (proposal ''S'' ''D'' 1000000 g n (Hash_Hex 66) (hexutil_Encode s')))
             = Inr (sample_proposal_body (Hash_Hex 66) (hexutil_Encode (replicate 64 2 @ [28])))
           \<and> normalizeV (replicate 64 2 @ [1]) = Some s')"
proof -
  from submitted_hash_and_signature [OF sample_submit_in_trace]
  obtain n g h key s s' where *:
    "encodedTxHash sample_lib (gnosisSafeTx sample_lib ''S'' ''D'' ''A'' 1000000 g n) = Inr h"
    "HexToECDSA sample_lib ''4c'' = Inr key"
    "Sign sample_lib (Hash_Bytes h) key = Inr s"
    "normalizeV s = Some s'"
    "json_text sample_lib (json_of_gnosisTxRequest
        (proposal ''S'' ''D'' 1000000 g n (Hash_Hex h) (hexutil_Encode s')))
      = Inr (sample_proposal_body (Hash_Hex 66) (hexutil_Encode (replicate 64 2 @ [28])))"
    unfolding Let_def by blast
  have "h = 66" using *(1) by (simp add: encodedTxHash_def sample_lib_def)
  moreover have "key = 2" using *(2) by (simp add: sample_lib_def)
  ultimately have "s = replicate 64 2 @ [1]" using *(3) sample_Sign [of 66] by simp
  with * \<open>h = 66\<close> sample_submit_in_trace show ?thesis by blast
qed

subsection \<open>The two fetching steps\<close>




end
